theory Spec2Isabelle
  imports Main "HOL-Library.DAList"
begin

section \<open>Strings and untyped host values\<close>

text \<open>
  Strings are byte lists. \<open>toLowerCase\<close> and \<open>toUpperCase\<close> map the ASCII letters and
  leave every other byte alone (the Unicode case mappings of the JavaScript methods are
  outside this model). \<open>startsWith\<close> and \<open>str_includes\<close> are the methods \<open>startsWith\<close>
  and \<open>includes\<close> of a JavaScript string.
\<close>

definition toLowerChar :: "char \<Rightarrow> char" where
  "toLowerChar c =
     (case map_of (zip ''ABCDEFGHIJKLMNOPQRSTUVWXYZ'' ''abcdefghijklmnopqrstuvwxyz'') c of
        None \<Rightarrow> c | Some l \<Rightarrow> l)"

definition toUpperChar :: "char \<Rightarrow> char" where
  "toUpperChar c =
     (case map_of (zip ''abcdefghijklmnopqrstuvwxyz'' ''ABCDEFGHIJKLMNOPQRSTUVWXYZ'') c of
        None \<Rightarrow> c | Some u \<Rightarrow> u)"

definition toLowerCase :: "string \<Rightarrow> string" where
  "toLowerCase s = map toLowerChar s"

definition toUpperCase :: "string \<Rightarrow> string" where
  "toUpperCase s = map toUpperChar s"

definition startsWith :: "string \<Rightarrow> string \<Rightarrow> bool" where
  "startsWith s p = (take (length p) s = p)"

fun str_includes :: "string \<Rightarrow> string \<Rightarrow> bool" where
  "str_includes [] p = (p = [])"
| "str_includes (c # cs) p = (startsWith (c # cs) p \<or> str_includes cs p)"

text \<open>
  The host hands the hooks untyped data (\<open>Record<string, unknown>\<close>); the casts of the
  source (\<open>as string | undefined\<close>) check nothing at run time. \<open>JBigInt\<close> is a
  \<open>bigint\<close> and \<open>JCircular\<close> an object or array that contains itself. \<open>truthy\<close> is
  JavaScript's conversion to a boolean, \<open>coalesce\<close> is the operator \<open>??\<close>, and
  \<open>get_prop\<close> reads a property of an object, \<open>undefined\<close> when the key is missing.
  \<open>serialisable\<close> holds of the values that \<open>JSON.stringify\<close> accepts: it throws a
  \<open>TypeError\<close> for a \<open>bigint\<close> and for a circular structure, wherever they sit in
  the value.
\<close>

datatype jsval =
    JUndefined
  | JNull
  | JBool bool
  | JNum int
  | JBigInt int
  | JStr string
  | JArr "jsval list"
  | JObj "(string \<times> jsval) list"
  | JCircular

fun truthy :: "jsval \<Rightarrow> bool" where
  "truthy JUndefined = False"
| "truthy JNull = False"
| "truthy (JBool b) = b"
| "truthy (JNum n) = (n \<noteq> 0)"
| "truthy (JBigInt n) = (n \<noteq> 0)"
| "truthy (JStr s) = (s \<noteq> [])"
| "truthy (JArr xs) = True"
| "truthy (JObj kvs) = True"
| "truthy JCircular = True"

fun nullish :: "jsval \<Rightarrow> bool" where
  "nullish JUndefined = True"
| "nullish JNull = True"
| "nullish v = False"

fun serialisable :: "jsval \<Rightarrow> bool" where
  "serialisable (JBigInt n) = False"
| "serialisable JCircular = False"
| "serialisable (JArr xs) = list_all serialisable xs"
| "serialisable (JObj kvs) = list_all serialisable (map snd kvs)"
| "serialisable v = True"

definition coalesce :: "jsval \<Rightarrow> jsval \<Rightarrow> jsval" where
  "coalesce a b = (if nullish a then b else a)"

definition get_prop :: "(string \<rightharpoonup> jsval) \<Rightarrow> string \<Rightarrow> jsval" where
  "get_prop obj k = (case obj k of None \<Rightarrow> JUndefined | Some v \<Rightarrow> v)"

text \<open>A path that is \<open>string | null\<close> in the source; \<open>null\<close> and the empty string are falsy.\<close>

definition truthy_path :: "string option \<Rightarrow> bool" where
  "truthy_path p = (case p of None \<Rightarrow> False | Some s \<Rightarrow> s \<noteq> [])"

text \<open>
  What a \<open>try\<close> block does: it returns a value or throws. A \<open>catch\<close> turns \<open>Throws\<close>
  into the value of its handler.
\<close>

datatype 'a outcome = Returns 'a | Throws

section \<open>The data of \<open>types.ts\<close>\<close>

record PendingCall =
  filePath :: jsval
  content :: jsval
  oldString :: jsval
  newString :: jsval
  edits :: jsval
  tool :: string
  sessionID :: string
  timestamp :: int

record ToolInput =
  file_path :: jsval
  ti_content :: jsval
  old_string :: jsval
  new_string :: jsval
  ti_edits :: jsval

record HookInput =
  session_id :: string
  tool_name :: string
  transcript_path :: string
  cwd :: string
  hook_event_name :: string
  tool_input :: ToolInput
  tool_response :: jsval

record CheckResult =
  hasComments :: bool
  message :: string

section \<open>The world outside the process\<close>

text \<open>
  Everything the code reads from its environment is a field of \<open>world\<close>: the process
  (\<open>process.platform\<close>, \<open>process.arch\<close>, \<open>process.cwd()\<close>, the variable
  \<open>XDG_CACHE_HOME\<close>, \<open>os.homedir()\<close>), the installed package
  \<open>@code-yeongyu/comment-checker\<close> (its directory when \<open>require.resolve\<close> finds it,
  its version when \<open>require\<close> loads its \<open>package.json\<close>; \<open>None\<close> when the call
  throws), the paths that exist on disk, the answer of the release server to a request,
  what an extraction utility does when it is spawned, what the checker binary does when
  it is spawned with a text on its standard input, and which of the remaining
  file-system calls throw. \<open>SpawnError\<close> stands for any exception while the checker
  is spawned, fed and read, \<open>Exited\<close> carries the exit code and the text of the two
  output streams.

  Three functions of the platform are fields of the world as well, so that every result
  holds whatever they compute: \<open>path_join\<close> is \<open>path.join\<close> of Node, with the
  separators, the normalisation and the drive letters of the platform; \<open>trim\<close> is
  \<open>String.prototype.trim\<close>, with the white space of Unicode; \<open>json_text\<close> is the
  text that \<open>JSON.stringify\<close> produces for a payload that it accepts.

  The process runs without \<open>COMMENT_CHECKER_DEBUG=1\<close>, so a call of \<open>debugLog\<close>
  returns at its first statement; its arguments are evaluated all the same, and none of
  them can throw (the one at line 118 of \<open>cli.ts\<close> takes a substring of the text that
  \<open>JSON.stringify\<close> has returned). The \<open>console\<close> messages take no part in any
  result. Both are left out.
\<close>

datatype fetch_outcome = NetworkError | HttpResponse nat

datatype extract_outcome = ExtractSpawnError | ExtractExited int "string set"

datatype proc_outcome = SpawnError | Exited int string string

datatype io_op = Mkdir | WriteArchive | Unlink | Chmod

record world =
  platform :: string
  arch :: string
  XDG_CACHE_HOME :: "string option"
  homedir :: string
  process_cwd :: string
  mainPackageDir :: "string option"
  packageVersion :: "string option"
  files :: "string set"
  fetch :: "string \<Rightarrow> fetch_outcome"
  spawnExtract :: "string list \<Rightarrow> extract_outcome"
  spawnChecker :: "string list \<Rightarrow> string \<Rightarrow> proc_outcome"
  io_fails :: "io_op \<Rightarrow> bool"
  path_join :: "string list \<Rightarrow> string"
  trim :: "string \<Rightarrow> string"
  json_text :: "HookInput \<Rightarrow> string"

definition existsSync :: "world \<Rightarrow> string \<Rightarrow> bool" where
  "existsSync W p = (p \<in> files W)"

text \<open>
  \<open>JSON.stringify(input)\<close> for a payload: strings always serialise, the untyped fields
  may hold a value that makes it throw.
\<close>

definition JSON_stringify :: "world \<Rightarrow> HookInput \<Rightarrow> string outcome" where
  "JSON_stringify W input =
     (if serialisable (file_path (tool_input input))
         \<and> serialisable (ti_content (tool_input input))
         \<and> serialisable (old_string (tool_input input))
         \<and> serialisable (new_string (tool_input input))
         \<and> serialisable (ti_edits (tool_input input))
         \<and> serialisable (tool_response input)
      then Returns (json_text W input)
      else Throws)"

section \<open>\<open>downloader.ts\<close>\<close>

definition REPO :: string where
  "REPO = ''code-yeongyu/go-claude-code-comment-checker''"

datatype archive_ext = TarGz | Zip

record PlatformInfo =
  os :: string
  pi_arch :: string
  ext :: archive_ext

definition ext_string :: "archive_ext \<Rightarrow> string" where
  "ext_string e = (case e of TarGz \<Rightarrow> ''tar.gz'' | Zip \<Rightarrow> ''zip'')"

definition PLATFORM_MAP :: "string \<rightharpoonup> PlatformInfo" where
  "PLATFORM_MAP = map_of
     [(''darwin-arm64'', \<lparr>os = ''darwin'', pi_arch = ''arm64'', ext = TarGz\<rparr>),
      (''darwin-x64'', \<lparr>os = ''darwin'', pi_arch = ''amd64'', ext = TarGz\<rparr>),
      (''linux-arm64'', \<lparr>os = ''linux'', pi_arch = ''arm64'', ext = TarGz\<rparr>),
      (''linux-x64'', \<lparr>os = ''linux'', pi_arch = ''amd64'', ext = TarGz\<rparr>),
      (''win32-x64'', \<lparr>os = ''windows'', pi_arch = ''amd64'', ext = Zip\<rparr>)]"

definition getCacheDir :: "world \<Rightarrow> string" where
  "getCacheDir W =
     (let xdgCache = XDG_CACHE_HOME W;
          base = (case xdgCache of
                    Some d \<Rightarrow> if d \<noteq> [] then d else path_join W [homedir W, ''.cache'']
                  | None \<Rightarrow> path_join W [homedir W, ''.cache''])
      in path_join W [base, ''opencode-comments-plugin'', ''bin''])"

definition getBinaryName :: "world \<Rightarrow> string" where
  "getBinaryName W =
     (if platform W = ''win32'' then ''comment-checker.exe'' else ''comment-checker'')"

definition getCachedBinaryPath :: "world \<Rightarrow> string option" where
  "getCachedBinaryPath W =
     (let binaryPath = path_join W [getCacheDir W, getBinaryName W]
      in if existsSync W binaryPath then Some binaryPath else None)"

definition getPackageVersion :: "world \<Rightarrow> string" where
  "getPackageVersion W = (case packageVersion W of Some v \<Rightarrow> v | None \<Rightarrow> ''0.7.0'')"

definition assetName_of :: "string \<Rightarrow> PlatformInfo \<Rightarrow> string" where
  "assetName_of version info =
     ''comment-checker_v'' @ version @ ''_'' @ os info @ ''_'' @ pi_arch info
       @ ''.'' @ ext_string (ext info)"

definition downloadUrl_of :: "string \<Rightarrow> string \<Rightarrow> string" where
  "downloadUrl_of version assetName =
     ''https://github.com/'' @ REPO @ ''/releases/download/v'' @ version @ ''/'' @ assetName"

text \<open>
  The two extraction functions spawn a utility and throw when it exits non-zero. They
  return nothing; what remains of a call is whether it threw and the set of paths the
  utility wrote, also when it failed half-way.
\<close>

definition extractTarGz :: "world \<Rightarrow> string \<Rightarrow> string \<Rightarrow> unit outcome \<times> string set" where
  "extractTarGz W archivePath destDir =
     (case spawnExtract W [''tar'', ''-xzf'', archivePath, ''-C'', destDir] of
        ExtractSpawnError \<Rightarrow> (Throws, {})
      | ExtractExited exitCode written \<Rightarrow>
          (if exitCode \<noteq> 0 then Throws else Returns (), written))"

definition extractZip :: "world \<Rightarrow> string \<Rightarrow> string \<Rightarrow> unit outcome \<times> string set" where
  "extractZip W archivePath destDir =
     (case (if platform W = ''win32''
            then spawnExtract W
                   [''powershell'', ''-command'',
                    ''Expand-Archive -Path '' @ [CHR 0x27] @ archivePath @ [CHR 0x27]
                      @ '' -DestinationPath '' @ [CHR 0x27] @ destDir @ [CHR 0x27]
                      @ '' -Force'']
            else spawnExtract W [''unzip'', ''-o'', archivePath, ''-d'', destDir]) of
        ExtractSpawnError \<Rightarrow> (Throws, {})
      | ExtractExited exitCode written \<Rightarrow>
          (if exitCode \<noteq> 0 then Throws else Returns (), written))"

text \<open>The choice between the two by the extension of the asset.\<close>

definition extract_archive ::
  "world \<Rightarrow> archive_ext \<Rightarrow> string \<Rightarrow> string \<Rightarrow> unit outcome \<times> string set" where
  "extract_archive W e archivePath destDir =
     (if e = TarGz then extractTarGz W archivePath destDir
      else extractZip W archivePath destDir)"

text \<open>The command line that \<open>extract_archive\<close> hands to \<open>spawn\<close>.\<close>

definition extract_command :: "world \<Rightarrow> archive_ext \<Rightarrow> string \<Rightarrow> string \<Rightarrow> string list" where
  "extract_command W e archivePath destDir =
     (if e = TarGz then [''tar'', ''-xzf'', archivePath, ''-C'', destDir]
      else if platform W = ''win32''
      then [''powershell'', ''-command'',
            ''Expand-Archive -Path '' @ [CHR 0x27] @ archivePath @ [CHR 0x27]
              @ '' -DestinationPath '' @ [CHR 0x27] @ destDir @ [CHR 0x27] @ '' -Force'']
      else [''unzip'', ''-o'', archivePath, ''-d'', destDir])"

text \<open>
  The result of a download: the path or \<open>null\<close>, the paths on disk afterwards, and the
  URLs that were requested from the network, in order.
\<close>

record download_result =
  dl_path :: "string option"
  dl_files :: "string set"
  dl_requests :: "string list"

text \<open>
  The \<open>try\<close> block of \<open>downloadCommentChecker\<close> with its \<open>catch\<close>: every
  statement that throws ends the block there, with \<open>null\<close> as the result and the disk
  as the statements before it left it.
\<close>

definition download_try ::
  "world \<Rightarrow> PlatformInfo \<Rightarrow> string \<Rightarrow> string \<Rightarrow> string \<Rightarrow> string \<Rightarrow> download_result" where
  "download_try W info cacheDir binaryPath assetName downloadUrl =
     (if \<not> existsSync W cacheDir \<and> io_fails W Mkdir
      then \<lparr>dl_path = None, dl_files = files W, dl_requests = []\<rparr>
      else
        let fs1 = (if \<not> existsSync W cacheDir then insert cacheDir (files W) else files W)
        in case fetch W downloadUrl of
             NetworkError \<Rightarrow> \<lparr>dl_path = None, dl_files = fs1, dl_requests = [downloadUrl]\<rparr>
           | HttpResponse status \<Rightarrow>
               if \<not> (200 \<le> status \<and> status \<le> 299)
               then \<lparr>dl_path = None, dl_files = fs1, dl_requests = [downloadUrl]\<rparr>
               else
                 let archivePath = path_join W [cacheDir, assetName]
                 in if io_fails W WriteArchive
                    then \<lparr>dl_path = None, dl_files = fs1, dl_requests = [downloadUrl]\<rparr>
                    else
                      let fs2 = insert archivePath fs1;
                          (extracted, written) =
                             extract_archive W (ext info) archivePath cacheDir;
                          fs3 = fs2 \<union> written
                      in if extracted = Throws
                         then \<lparr>dl_path = None, dl_files = fs3, dl_requests = [downloadUrl]\<rparr>
                         else if archivePath \<in> fs3 \<and> io_fails W Unlink
                         then \<lparr>dl_path = None, dl_files = fs3, dl_requests = [downloadUrl]\<rparr>
                         else
                           let fs4 = fs3 - {archivePath}
                           in if platform W \<noteq> ''win32'' \<and> binaryPath \<in> fs4
                                 \<and> io_fails W Chmod
                              then \<lparr>dl_path = None, dl_files = fs4,
                                     dl_requests = [downloadUrl]\<rparr>
                              else \<lparr>dl_path = Some binaryPath, dl_files = fs4,
                                     dl_requests = [downloadUrl]\<rparr>)"

definition downloadCommentChecker :: "world \<Rightarrow> download_result" where
  "downloadCommentChecker W =
     (let platformKey = platform W @ ''-'' @ arch W
      in case PLATFORM_MAP platformKey of
           None \<Rightarrow> \<lparr>dl_path = None, dl_files = files W, dl_requests = []\<rparr>
         | Some platformInfo \<Rightarrow>
             let cacheDir = getCacheDir W;
                 binaryName = getBinaryName W;
                 binaryPath = path_join W [cacheDir, binaryName]
             in if existsSync W binaryPath
                then \<lparr>dl_path = Some binaryPath, dl_files = files W, dl_requests = []\<rparr>
                else
                  let version = getPackageVersion W;
                      assetName = assetName_of version platformInfo;
                      downloadUrl = downloadUrl_of version assetName
                  in download_try W platformInfo cacheDir binaryPath assetName downloadUrl)"

definition ensureCommentCheckerBinary :: "world \<Rightarrow> download_result" where
  "ensureCommentCheckerBinary W =
     (case getCachedBinaryPath W of
        Some cachedPath \<Rightarrow>
          if cachedPath \<noteq> []
          then \<lparr>dl_path = Some cachedPath, dl_files = files W, dl_requests = []\<rparr>
          else downloadCommentChecker W
      | None \<Rightarrow> downloadCommentChecker W)"

section \<open>\<open>cli.ts\<close>: locating and running the checker\<close>

text \<open>
  \<open>cli.ts\<close> has a \<open>getBinaryName\<close> of its own with the body of the one in
  \<open>downloader.ts\<close>; one definition stands for both. The module variable
  \<open>resolvedCliPath\<close> is passed to the functions that read it.
\<close>

definition findCommentCheckerPathSync :: "world \<Rightarrow> string option" where
  "findCommentCheckerPathSync W =
     (let binaryName = getBinaryName W;
          inPackage =
            (case mainPackageDir W of
               None \<Rightarrow> None
             | Some cliDir \<Rightarrow>
                 let binaryPath = path_join W [cliDir, ''bin'', binaryName]
                 in if existsSync W binaryPath then Some binaryPath else None)
      in case inPackage of
           Some binaryPath \<Rightarrow> Some binaryPath
         | None \<Rightarrow>
             let cachedPath = getCachedBinaryPath W
             in if truthy_path cachedPath then cachedPath else None)"

definition getCommentCheckerPathSync :: "world \<Rightarrow> string option \<Rightarrow> string option" where
  "getCommentCheckerPathSync W resolvedCliPath =
     (case resolvedCliPath of
        Some p \<Rightarrow> Some p
      | None \<Rightarrow> findCommentCheckerPathSync W)"

record RunOptions =
  opt_cliPath :: "string option"
  opt_prompt :: "string option"

definition no_comments :: CheckResult where
  "no_comments = \<lparr>hasComments = False, message = []\<rparr>"

text \<open>
  The \<open>try\<close> block of \<open>runCommentChecker\<close>, which writes \<open>jsonInput\<close> to the
  standard input of the process: a spawn that fails throws.
\<close>

definition checker_args :: "world \<Rightarrow> string \<Rightarrow> RunOptions \<Rightarrow> string list" where
  "checker_args W binaryPath options =
     [binaryPath]
       @ (case opt_prompt options of
            None \<Rightarrow> []
          | Some p \<Rightarrow>
              if p \<noteq> [] \<and> length (trim W p) > 0 then [''--prompt'', p] else [])"

definition runCommentChecker_try ::
  "world \<Rightarrow> string \<Rightarrow> string \<Rightarrow> RunOptions \<Rightarrow> CheckResult outcome" where
  "runCommentChecker_try W binaryPath jsonInput options =
     (let args = checker_args W binaryPath options
      in case spawnChecker W args jsonInput of
           SpawnError \<Rightarrow> Throws
         | Exited exitCode stdout stderr \<Rightarrow>
             if exitCode = 0 then Returns no_comments
             else if exitCode = 2 then Returns \<lparr>hasComments = True, message = stderr\<rparr>
             else Returns no_comments)"

text \<open>
  \<open>options.cliPath ?? resolvedCliPath ?? getCommentCheckerPathSync()\<close>, and then the
  function: the two early returns, \<open>JSON.stringify(input)\<close> outside the \<open>try\<close>, where
  nothing catches what it throws, and the \<open>try\<close> block with its \<open>catch\<close>.
\<close>

definition chosen_binaryPath :: "world \<Rightarrow> string option \<Rightarrow> RunOptions \<Rightarrow> string option" where
  "chosen_binaryPath W resolvedCliPath options =
     (case opt_cliPath options of
        Some p \<Rightarrow> Some p
      | None \<Rightarrow>
          (case resolvedCliPath of
             Some p \<Rightarrow> Some p
           | None \<Rightarrow> getCommentCheckerPathSync W resolvedCliPath))"

definition runCommentChecker ::
  "world \<Rightarrow> string option \<Rightarrow> HookInput \<Rightarrow> RunOptions \<Rightarrow> CheckResult outcome" where
  "runCommentChecker W resolvedCliPath input options =
     (let binaryPath = chosen_binaryPath W resolvedCliPath options
      in if \<not> truthy_path binaryPath then Returns no_comments
         else
           (case binaryPath of
              None \<Rightarrow> Returns no_comments
            | Some p \<Rightarrow>
                if \<not> existsSync W p then Returns no_comments
                else
                  (case JSON_stringify W input of
                     Throws \<Rightarrow> Throws
                   | Returns jsonInput \<Rightarrow>
                       (case runCommentChecker_try W p jsonInput options of
                          Throws \<Rightarrow> Returns no_comments
                        | Returns r \<Rightarrow> Returns r))))"

section \<open>The plugin: the pending-call table and the two hooks\<close>

text \<open>
  The three constants of \<open>./constants\<close> are parameters of the hooks.
\<close>

record constants =
  TOOL_NAMES :: "string set"
  OUTPUT_FAILURE_PATTERNS :: "string list"
  COMMENT_CHECKER_EVENT :: string

definition PENDING_CALL_TTL :: int where
  "PENDING_CALL_TTL = 60000"

text \<open>
  The module state of the plugin. \<open>pendingCalls\<close> is a JavaScript \<open>Map\<close>: keys are
  unique and entries keep their insertion order. \<open>cliPathPromise\<close> is what awaiting the
  promise gives: a path, \<open>null\<close>, or a rejection, or nothing when the promise never
  settles (before the plugin function has run the variable is \<open>null\<close>, and awaiting
  \<open>null\<close> gives \<open>null\<close>).
\<close>

datatype awaited = Pending | Resolves "string option" | Rejects

record plugin_state =
  pendingCalls :: "(string, PendingCall) alist"
  cliPathPromise :: awaited
  customPrompt :: "string option"

definition initial_plugin_state :: plugin_state where
  "initial_plugin_state =
     \<lparr>pendingCalls = DAList.empty, cliPathPromise = Resolves None, customPrompt = None\<rparr>"

text \<open>
  \<open>cleanupOldPendingCalls\<close>: the loop visits the entries of the table and deletes the
  stale ones from it; \<open>now\<close> is the value of \<open>Date.now()\<close>.
\<close>

fun cleanup_loop ::
  "int \<Rightarrow> (string \<times> PendingCall) list \<Rightarrow> (string, PendingCall) alist
     \<Rightarrow> (string, PendingCall) alist" where
  "cleanup_loop now [] tbl = tbl"
| "cleanup_loop now ((callID, call) # rest) tbl =
     cleanup_loop now rest
       (if now - timestamp call > PENDING_CALL_TTL then DAList.delete callID tbl else tbl)"

definition cleanupOldPendingCalls :: "int \<Rightarrow> plugin_state \<Rightarrow> plugin_state" where
  "cleanupOldPendingCalls now st =
     st\<lparr>pendingCalls := cleanup_loop now (DAList.impl_of (pendingCalls st)) (pendingCalls st)\<rparr>"

text \<open>
  \<open>resolveCustomPrompt\<close> reads \<open>config.comment_checker.custom_prompt\<close>; reading a
  property of \<open>undefined\<close> or \<open>null\<close> throws.
\<close>

definition resolveCustomPrompt :: "world \<Rightarrow> jsval \<Rightarrow> string option outcome" where
  "resolveCustomPrompt W config =
     (if nullish config then Throws
      else
        let raw = (case config of JObj kvs \<Rightarrow> get_prop (map_of kvs) ''comment_checker''
                                | _ \<Rightarrow> JUndefined)
        in case raw of
             JObj kvs \<Rightarrow>
               (case get_prop (map_of kvs) ''custom_prompt'' of
                  JStr p \<Rightarrow> Returns (if length (trim W p) > 0 then Some p else None)
                | _ \<Rightarrow> Returns None)
           | _ \<Rightarrow> Returns None)"

definition config_hook :: "world \<Rightarrow> jsval \<Rightarrow> plugin_state \<Rightarrow> plugin_state" where
  "config_hook W config st =
     (case resolveCustomPrompt W config of
        Throws \<Rightarrow> st
      | Returns p \<Rightarrow> st\<lparr>customPrompt := p\<rparr>)"

record hook_in =
  in_tool :: string
  in_sessionID :: string
  in_callID :: string

text \<open>The object that the before-hook stores, from the arguments of the tool call.\<close>

definition args_filePath :: "(string \<rightharpoonup> jsval) \<Rightarrow> jsval" where
  "args_filePath args =
     coalesce (coalesce (get_prop args ''filePath'') (get_prop args ''file_path''))
       (get_prop args ''path'')"

definition new_pending :: "string \<Rightarrow> hook_in \<Rightarrow> (string \<rightharpoonup> jsval) \<Rightarrow> int \<Rightarrow> PendingCall" where
  "new_pending toolLower input args now =
     \<lparr>filePath = args_filePath args,
      content = get_prop args ''content'',
      oldString = coalesce (get_prop args ''oldString'') (get_prop args ''old_string''),
      newString = coalesce (get_prop args ''newString'') (get_prop args ''new_string''),
      edits = get_prop args ''edits'',
      tool = toolLower,
      sessionID = in_sessionID input,
      timestamp = now\<rparr>"

definition tool_execute_before ::
  "constants \<Rightarrow> int \<Rightarrow> hook_in \<Rightarrow> (string \<rightharpoonup> jsval) \<Rightarrow> plugin_state \<Rightarrow> plugin_state" where
  "tool_execute_before K now input args st =
     (let toolLower = toLowerCase (in_tool input)
      in if toolLower \<notin> TOOL_NAMES K then st
         else
           let filePath = args_filePath args
           in if \<not> truthy filePath then st
              else st\<lparr>pendingCalls :=
                        DAList.update (in_callID input) (new_pending toolLower input args now)
                          (pendingCalls st)\<rparr>)"

text \<open>The second argument of the after-hook; \<open>out_text\<close> is its field \<open>output\<close>.\<close>

record tool_output =
  title :: string
  out_text :: string
  metadata :: jsval

text \<open>
  What an after-hook leaves behind: the plugin state, the output object of the host, the
  entry it took from the table (the local \<open>pendingCall\<close>), the call it made to
  \<open>runCommentChecker\<close>, if it made one, and whether it has returned: a hook whose
  promise never settles stays suspended at its \<open>await\<close>, with what it did before.
\<close>

record after_result =
  ar_state :: plugin_state
  ar_output :: tool_output
  ar_taken :: "PendingCall option"
  ar_invoked :: "(HookInput \<times> RunOptions) option"
  ar_returned :: bool

definition capitalize :: "string \<Rightarrow> string" where
  "capitalize s = toUpperCase (take 1 s) @ drop 1 s"

text \<open>
  The payload that the after-hook builds; it gives no \<open>tool_response\<close>, and a field
  that is absent reads as \<open>undefined\<close>.
\<close>

definition hookInput_of :: "constants \<Rightarrow> world \<Rightarrow> PendingCall \<Rightarrow> HookInput" where
  "hookInput_of K W pendingCall =
     \<lparr>session_id = sessionID pendingCall,
      tool_name = capitalize (tool pendingCall),
      transcript_path = [],
      cwd = process_cwd W,
      hook_event_name = COMMENT_CHECKER_EVENT K,
      tool_input =
        \<lparr>file_path = filePath pendingCall,
         ti_content = content pendingCall,
         old_string = oldString pendingCall,
         new_string = newString pendingCall,
         ti_edits = edits pendingCall\<rparr>,
      tool_response = JUndefined\<rparr>"

definition isToolFailure :: "constants \<Rightarrow> string \<Rightarrow> bool" where
  "isToolFailure K out =
     (let outputLower = toLowerCase out
      in startsWith outputLower ''error''
         \<or> list_ex (\<lambda>pattern. str_includes outputLower pattern) (OUTPUT_FAILURE_PATTERNS K))"

definition tool_execute_after ::
  "constants \<Rightarrow> world \<Rightarrow> string option \<Rightarrow> hook_in \<Rightarrow> tool_output \<Rightarrow> plugin_state
     \<Rightarrow> after_result" where
  "tool_execute_after K W resolvedCliPath input out st =
     (case DAList.lookup (pendingCalls st) (in_callID input) of
        None \<Rightarrow>
          \<lparr>ar_state = st, ar_output = out, ar_taken = None, ar_invoked = None,
           ar_returned = True\<rparr>
      | Some pendingCall \<Rightarrow>
          let st' = st\<lparr>pendingCalls := DAList.delete (in_callID input) (pendingCalls st)\<rparr>;
              skipped = \<lparr>ar_state = st', ar_output = out, ar_taken = Some pendingCall,
                         ar_invoked = None, ar_returned = True\<rparr>
          in if isToolFailure K (out_text out) then skipped
             else
               (case cliPathPromise st of
                  Pending \<Rightarrow> skipped\<lparr>ar_returned := False\<rparr>
                | Rejects \<Rightarrow> skipped
                | Resolves cliPath \<Rightarrow>
                    (case cliPath of
                       None \<Rightarrow> skipped
                     | Some p \<Rightarrow>
                         if p = [] \<or> \<not> existsSync W p then skipped
                         else
                           let hookInput = hookInput_of K W pendingCall;
                               options = \<lparr>opt_cliPath = None, opt_prompt = customPrompt st\<rparr>;
                               invoked = skipped\<lparr>ar_invoked := Some (hookInput, options)\<rparr>
                           in case runCommentChecker W resolvedCliPath hookInput options of
                                Throws \<Rightarrow> invoked
                              | Returns result \<Rightarrow>
                                  if hasComments result \<and> message result \<noteq> []
                                  then invoked\<lparr>ar_output :=
                                         out\<lparr>out_text := out_text out @ [CHR 0x0A, CHR 0x0A]
                                                            @ message result\<rparr>\<rparr>
                                  else invoked)))"

text \<open>
  The events that reach the plugin, each with what it reads from outside: the hooks of
  the host, and the timer that runs the sweep.
\<close>

datatype plugin_event =
    EvConfig world jsval
  | EvBefore int hook_in "string \<rightharpoonup> jsval"
  | EvAfter world "string option" hook_in tool_output
  | EvSweep int

fun plugin_step :: "constants \<Rightarrow> plugin_event \<Rightarrow> plugin_state \<Rightarrow> plugin_state" where
  "plugin_step K (EvConfig W config) st = config_hook W config st"
| "plugin_step K (EvBefore now input args) st = tool_execute_before K now input args st"
| "plugin_step K (EvAfter W resolvedCliPath input out) st =
     ar_state (tool_execute_after K W resolvedCliPath input out st)"
| "plugin_step K (EvSweep now) st = cleanupOldPendingCalls now st"

fun plugin_run :: "constants \<Rightarrow> plugin_event list \<Rightarrow> plugin_state \<Rightarrow> plugin_state" where
  "plugin_run K [] st = st"
| "plugin_run K (ev # evs) st = plugin_run K evs (plugin_step K ev st)"

text \<open>
  Events that leave the entry of a call identifier \<open>c\<close>, recorded at time \<open>t\<close>, in the
  table: the hooks of other calls, a change of configuration, and a sweep at a time
  when the entry is not older than the time-to-live. \<open>records\<close> holds of the
  before-hooks of \<open>c\<close> itself.
\<close>

fun leaves_alone :: "string \<Rightarrow> int \<Rightarrow> plugin_event \<Rightarrow> bool" where
  "leaves_alone c t (EvConfig W config) = True"
| "leaves_alone c t (EvBefore now input args) = (in_callID input \<noteq> c)"
| "leaves_alone c t (EvAfter W resolved input out) = (in_callID input \<noteq> c)"
| "leaves_alone c t (EvSweep now) = (\<not> now - t > PENDING_CALL_TTL)"

fun records :: "string \<Rightarrow> plugin_event \<Rightarrow> bool" where
  "records c (EvBefore now input args) = (in_callID input = c)"
| "records c ev = False"

section \<open>\<open>cli.ts\<close>: the single-flight resolution\<close>

text \<open>
  JavaScript runs one callback at a time, so a call of an \<open>async\<close> function is one
  step up to its first \<open>await\<close>, and the rest of its body is a later step. The promises
  that the module creates live in \<open>heap\<close>; a promise is fulfilled, or it is the promise
  of the resolution that is suspended at \<open>await ensureCommentCheckerBinary()\<close> and
  carries the path that the awaited download will deliver. A promise that an
  \<open>async\<close> function returns after \<open>return p\<close> for a promise \<open>p\<close> follows \<open>p\<close>, and
  is identified with it; one that it returns after \<open>return v\<close> is \<open>Settled v\<close>.

  A download that starts is run to its end at once, with its requests and its changes to
  the disk recorded in the state; only the delivery of its result waits for \<open>settle\<close>.
  \<open>lookups\<close> counts how often the body of the resolution has been entered.
\<close>

datatype promise = Fulfilled "string option" | AwaitingDownload "string option"

datatype promise_ref = Settled "string option" | Cell nat

record cli_module =
  resolvedCliPath :: "string option"
  initPromise :: "promise_ref option"
  heap :: "promise list"
  disk :: "string set"
  requests :: "string list"
  lookups :: nat

definition cli_initial :: "world \<Rightarrow> cli_module" where
  "cli_initial W =
     \<lparr>resolvedCliPath = None, initPromise = None, heap = [], disk = files W,
      requests = [], lookups = 0\<rparr>"

definition start_resolution :: "world \<Rightarrow> cli_module \<Rightarrow> cli_module" where
  "start_resolution W s =
     (let W' = W\<lparr>files := disk s\<rparr>;
          syncPath = findCommentCheckerPathSync W'
      in if truthy_path syncPath
            \<and> (case syncPath of Some p \<Rightarrow> existsSync W' p | None \<Rightarrow> False)
         then s\<lparr>resolvedCliPath := syncPath,
                heap := heap s @ [Fulfilled syncPath],
                lookups := lookups s + 1\<rparr>
         else
           let d = ensureCommentCheckerBinary W'
           in s\<lparr>heap := heap s @ [AwaitingDownload (dl_path d)],
                disk := dl_files d,
                requests := requests s @ dl_requests d,
                lookups := lookups s + 1\<rparr>)"

definition getCommentCheckerPath :: "world \<Rightarrow> cli_module \<Rightarrow> promise_ref \<times> cli_module" where
  "getCommentCheckerPath W s =
     (case resolvedCliPath s of
        Some p \<Rightarrow> (Settled (Some p), s)
      | None \<Rightarrow>
          (case initPromise s of
             Some pr \<Rightarrow> (pr, s)
           | None \<Rightarrow>
               let s' = start_resolution W s;
                   pr = Cell (length (heap s))
               in (pr, s'\<lparr>initPromise := Some pr\<rparr>)))"

definition startBackgroundInit :: "world \<Rightarrow> cli_module \<Rightarrow> cli_module" where
  "startBackgroundInit W s =
     (case initPromise s of
        Some pr \<Rightarrow> s
      | None \<Rightarrow>
          let (pr, s') = getCommentCheckerPath W s
          in s'\<lparr>initPromise := Some pr\<rparr>)"

text \<open>
  The rest of the body of the resolution, after the \<open>await\<close>: it runs for every promise
  that is suspended there.
\<close>

fun resume_all :: "promise list \<Rightarrow> string option \<Rightarrow> promise list \<times> string option" where
  "resume_all [] resolved = ([], resolved)"
| "resume_all (Fulfilled v # ps) resolved =
     (let (ps', resolved') = resume_all ps resolved in (Fulfilled v # ps', resolved'))"
| "resume_all (AwaitingDownload downloadedPath # ps) resolved =
     (if truthy_path downloadedPath
      then let (ps', resolved') = resume_all ps downloadedPath
           in (Fulfilled downloadedPath # ps', resolved')
      else let (ps', resolved') = resume_all ps resolved
           in (Fulfilled None # ps', resolved'))"

definition settle :: "cli_module \<Rightarrow> cli_module" where
  "settle s =
     (let (ps', resolved') = resume_all (heap s) (resolvedCliPath s)
      in s\<lparr>heap := ps', resolvedCliPath := resolved'\<rparr>)"

text \<open>What a caller that awaits a promise has received: \<open>None\<close> while it is pending.\<close>

definition observed :: "cli_module \<Rightarrow> promise_ref \<Rightarrow> string option option" where
  "observed s pr =
     (case pr of
        Settled v \<Rightarrow> Some v
      | Cell i \<Rightarrow>
          if i < length (heap s)
          then (case heap s ! i of Fulfilled v \<Rightarrow> Some v | AwaitingDownload d \<Rightarrow> None)
          else None)"

text \<open>
  A run of the module: calls of \<open>getCommentCheckerPath\<close> (each caller keeps the promise
  it was given), calls of \<open>startBackgroundInit\<close>, and the completion of the download.
\<close>

datatype cli_event = Call | BackgroundInit | Settle

fun cli_step ::
  "world \<Rightarrow> cli_event \<Rightarrow> cli_module \<times> promise_ref list \<Rightarrow> cli_module \<times> promise_ref list" where
  "cli_step W Call (s, callers) =
     (let (pr, s') = getCommentCheckerPath W s in (s', callers @ [pr]))"
| "cli_step W BackgroundInit (s, callers) = (startBackgroundInit W s, callers)"
| "cli_step W Settle (s, callers) = (settle s, callers)"

fun cli_run ::
  "world \<Rightarrow> cli_event list \<Rightarrow> cli_module \<times> promise_ref list \<Rightarrow> cli_module \<times> promise_ref list" where
  "cli_run W [] c = c"
| "cli_run W (ev # evs) c = cli_run W evs (cli_step W ev c)"

text \<open>
  The states of the module once a resolution has been started: there is one promise, the
  one of that resolution, \<open>initPromise\<close> refers to it, and every caller holds it or
  holds the path that it was fulfilled with. \<open>settled_with v\<close> are those among them in
  which the promise is fulfilled with \<open>v\<close>.
\<close>

definition started :: "cli_module \<times> promise_ref list \<Rightarrow> bool" where
  "started c =
     (case c of (s, callers) \<Rightarrow>
        lookups s = 1 \<and> length (requests s) \<le> 1 \<and> initPromise s = Some (Cell 0)
        \<and> (case heap s of
              [Fulfilled v] \<Rightarrow> resolvedCliPath s = None \<or> resolvedCliPath s = v
            | [AwaitingDownload d] \<Rightarrow> resolvedCliPath s = None
            | _ \<Rightarrow> False)
        \<and> (\<forall>pr\<in>set callers.
              pr = Cell 0
              \<or> (resolvedCliPath s \<noteq> None \<and> pr = Settled (resolvedCliPath s)
                  \<and> heap s = [Fulfilled (resolvedCliPath s)])))"

definition settled_with :: "string option \<Rightarrow> cli_module \<times> promise_ref list \<Rightarrow> bool" where
  "settled_with v c = (started c \<and> heap (fst c) = [Fulfilled v])"

section \<open>Sample inputs\<close>

text \<open>
  A \<open>path.join\<close> for paths that need no normalisation, and a \<open>trim\<close> for ASCII
  white space.
\<close>

fun sample_join :: "string list \<Rightarrow> string" where
  "sample_join [] = ''.''"
| "sample_join [p] = p"
| "sample_join (p # q # ps) = p @ ''/'' @ sample_join (q # ps)"

definition is_ws :: "char \<Rightarrow> bool" where
  "is_ws c = (c \<in> set [CHR '' '', CHR 0x09, CHR 0x0A, CHR 0x0B, CHR 0x0C, CHR 0x0D])"

definition sample_trim :: "string \<Rightarrow> string" where
  "sample_trim s = rev (dropWhile is_ws (rev (dropWhile is_ws s)))"

text \<open>
  A Linux machine with an empty disk and no installed package, a release server that
  answers every request with status 200, an extraction utility that exits with 1 after
  writing one file, and a checker that exits with 2 and a message on its standard error;
  one choice of the three constants; an edit whose new text carries a comment; and a
  payload with a \<open>bigint\<close> as its \<open>tool_response\<close>.
\<close>

definition sample_world :: world where
  "sample_world =
     \<lparr>platform = ''linux'', arch = ''x64'', XDG_CACHE_HOME = None, homedir = ''/home/u'',
      process_cwd = ''/work'', mainPackageDir = None, packageVersion = None,
      files = {},
      fetch = (\<lambda>url. HttpResponse 200),
      spawnExtract = (\<lambda>args. ExtractExited 1 {''/home/u/.cache/opencode-comments-plugin/bin/LICENSE''}),
      spawnChecker = (\<lambda>args jsonInput. Exited 2 [] ''New comment detected''),
      io_fails = (\<lambda>op. False),
      path_join = sample_join,
      trim = sample_trim,
      json_text = (\<lambda>input. ''{}'')\<rparr>"

definition sample_cached :: string where
  "sample_cached = ''/home/u/.cache/opencode-comments-plugin/bin/comment-checker''"

definition sample_archive :: string where
  "sample_archive =
     ''/home/u/.cache/opencode-comments-plugin/bin/comment-checker_v0.7.0_linux_amd64.tar.gz''"

definition sample_constants :: constants where
  "sample_constants =
     \<lparr>TOOL_NAMES = {''write'', ''edit'', ''multiedit''},
      OUTPUT_FAILURE_PATTERNS = [''error:'', ''failed to'', ''could not''],
      COMMENT_CHECKER_EVENT = ''PostToolUse''\<rparr>"

definition sample_input :: hook_in where
  "sample_input = \<lparr>in_tool = ''Edit'', in_sessionID = ''s1'', in_callID = ''c1''\<rparr>"

definition sample_args :: "string \<rightharpoonup> jsval" where
  "sample_args =
     [''filePath'' \<mapsto> JStr ''a.ts'', ''old_string'' \<mapsto> JStr ''// TODO'',
      ''new_string'' \<mapsto> JStr ''// TODO: fix'']"

definition sample_output :: tool_output where
  "sample_output = \<lparr>title = ''edit'', out_text = ''ok'', metadata = JNull\<rparr>"

definition sample_state :: plugin_state where
  "sample_state = initial_plugin_state\<lparr>cliPathPromise := Resolves (Some sample_cached)\<rparr>"

definition sample_payload :: HookInput where
  "sample_payload =
     hookInput_of sample_constants sample_world (new_pending ''edit'' sample_input sample_args 0)"

definition sample_bad_payload :: HookInput where
  "sample_bad_payload = sample_payload\<lparr>tool_response := JBigInt 1\<rparr>"

definition sample_other_input :: hook_in where
  "sample_other_input = \<lparr>in_tool = ''Write'', in_sessionID = ''s1'', in_callID = ''c2''\<rparr>"

section \<open>The downloader\<close>

lemma extract_archive_command:
  "extract_archive W e archivePath destDir =
     (case spawnExtract W (extract_command W e archivePath destDir) of
        ExtractSpawnError \<Rightarrow> (Throws, {})
      | ExtractExited exitCode written \<Rightarrow>
          (if exitCode \<noteq> 0 then Throws else Returns (), written))"
  by (simp add: extract_archive_def extract_command_def extractTarGz_def extractZip_def)

lemma download_try_requests:
  "length (dl_requests (download_try W info cacheDir binaryPath assetName url)) \<le> 1"
  by (simp add: download_try_def Let_def split: fetch_outcome.splits prod.splits)

lemma download_requests: "length (dl_requests (downloadCommentChecker W)) \<le> 1"
  using download_try_requests
  by (simp add: downloadCommentChecker_def Let_def split: option.splits)

lemma ensure_requests: "length (dl_requests (ensureCommentCheckerBinary W)) \<le> 1"
  using download_requests [of W]
  by (simp add: ensureCommentCheckerBinary_def split: option.splits)

lemma sample_cacheDir:
  assumes "path_join W = sample_join" and "XDG_CACHE_HOME W = None"
    and "homedir W = ''/home/u''"
  shows "getCacheDir W = ''/home/u/.cache/opencode-comments-plugin/bin''"
  using assms by (simp add: getCacheDir_def)

lemma sample_binaryPath:
  assumes "platform W \<noteq> ''win32''" and "path_join W = sample_join"
    and "XDG_CACHE_HOME W = None" and "homedir W = ''/home/u''"
  shows "path_join W [getCacheDir W, getBinaryName W] = sample_cached"
  using assms
  by (simp add: sample_cacheDir getBinaryName_def sample_cached_def)

text \<open>
  C7. The platform key \<open>darwin-arm64\<close> gives the asset name
  \<open>comment-checker_v<version>_darwin_arm64.tar.gz\<close> and \<open>win32-x64\<close> gives
  \<open>comment-checker_v<version>_windows_amd64.zip\<close>; when the platform key of the
  machine has no entry in \<open>PLATFORM_MAP\<close>, \<open>downloadCommentChecker\<close> returns
  \<open>null\<close>, requests nothing from the network and leaves the disk as it is.
\<close>

theorem platform_assets:
  "map_option (assetName_of version) (PLATFORM_MAP ''darwin-arm64'')
     = Some (''comment-checker_v'' @ version @ ''_darwin_arm64.tar.gz'')
   \<and> map_option (assetName_of version) (PLATFORM_MAP ''win32-x64'')
       = Some (''comment-checker_v'' @ version @ ''_windows_amd64.zip'')
   \<and> (PLATFORM_MAP (platform W @ ''-'' @ arch W) = None \<longrightarrow>
        downloadCommentChecker W = \<lparr>dl_path = None, dl_files = files W, dl_requests = []\<rparr>)"
  by (simp add: PLATFORM_MAP_def assetName_of_def ext_string_def downloadCommentChecker_def)

theorem platform_assets_witness:
  "PLATFORM_MAP (platform (sample_world\<lparr>platform := ''freebsd''\<rparr>) @ ''-''
      @ arch (sample_world\<lparr>platform := ''freebsd''\<rparr>)) = None
   \<and> downloadCommentChecker (sample_world\<lparr>platform := ''freebsd''\<rparr>)
       = \<lparr>dl_path = None, dl_files = {}, dl_requests = []\<rparr>
   \<and> map_option (assetName_of ''0.7.0'') (PLATFORM_MAP ''darwin-arm64'')
       = Some ''comment-checker_v0.7.0_darwin_arm64.tar.gz''"
  using platform_assets [of "''0.7.0''" "sample_world\<lparr>platform := ''freebsd''\<rparr>"]
  by (simp add: sample_world_def PLATFORM_MAP_def)

text \<open>
  C4. On a platform that has an entry in \<open>PLATFORM_MAP\<close>, when the executable is in
  the cache directory, \<open>downloadCommentChecker\<close> and \<open>ensureCommentCheckerBinary\<close>
  both return its path as it is, request nothing from the network and leave the disk as
  it is. (Without an entry there is no download to begin: the function returns
  \<open>null\<close> at its first test, before it looks at the cache directory.)
\<close>

theorem cached_binary_skips_network:
  assumes supported: "PLATFORM_MAP (platform W @ ''-'' @ arch W) = Some info"
    and cached: "existsSync W (path_join W [getCacheDir W, getBinaryName W])"
  shows "downloadCommentChecker W =
           \<lparr>dl_path = Some (path_join W [getCacheDir W, getBinaryName W]),
            dl_files = files W, dl_requests = []\<rparr>
       \<and> ensureCommentCheckerBinary W =
           \<lparr>dl_path = Some (path_join W [getCacheDir W, getBinaryName W]),
            dl_files = files W, dl_requests = []\<rparr>"
proof -
  have d: "downloadCommentChecker W =
             \<lparr>dl_path = Some (path_join W [getCacheDir W, getBinaryName W]),
              dl_files = files W, dl_requests = []\<rparr>"
    using supported cached by (simp add: downloadCommentChecker_def Let_def)
  have "ensureCommentCheckerBinary W =
          \<lparr>dl_path = Some (path_join W [getCacheDir W, getBinaryName W]),
           dl_files = files W, dl_requests = []\<rparr>"
    using cached d by (simp add: ensureCommentCheckerBinary_def getCachedBinaryPath_def Let_def)
  with d show ?thesis by simp
qed

theorem cached_binary_skips_network_witness:
  "PLATFORM_MAP (platform (sample_world\<lparr>files := {sample_cached}\<rparr>) @ ''-''
      @ arch (sample_world\<lparr>files := {sample_cached}\<rparr>))
     = Some \<lparr>os = ''linux'', pi_arch = ''amd64'', ext = TarGz\<rparr>
   \<and> existsSync (sample_world\<lparr>files := {sample_cached}\<rparr>) sample_cached
   \<and> downloadCommentChecker (sample_world\<lparr>files := {sample_cached}\<rparr>)
       = \<lparr>dl_path = Some sample_cached, dl_files = {sample_cached}, dl_requests = []\<rparr>
   \<and> ensureCommentCheckerBinary (sample_world\<lparr>files := {sample_cached}\<rparr>)
       = \<lparr>dl_path = Some sample_cached, dl_files = {sample_cached}, dl_requests = []\<rparr>"
proof -
  let ?L = "sample_world\<lparr>files := {sample_cached}\<rparr>"
  have p: "path_join ?L [getCacheDir ?L, getBinaryName ?L] = sample_cached"
    by (rule sample_binaryPath) (simp_all add: sample_world_def)
  have e: "existsSync ?L sample_cached"
    by (simp add: existsSync_def)
  have k: "PLATFORM_MAP (platform ?L @ ''-'' @ arch ?L)
             = Some \<lparr>os = ''linux'', pi_arch = ''amd64'', ext = TarGz\<rparr>"
    by (simp add: sample_world_def PLATFORM_MAP_def)
  have f: "files ?L = {sample_cached}" by simp
  from cached_binary_skips_network [of ?L, unfolded p, OF k e] k e
  show ?thesis unfolding f by simp
qed

text \<open>
  C9, as the code has it. When the download reaches the extraction and the extraction
  utility exits with a code other than 0, \<open>downloadCommentChecker\<close> returns \<open>null\<close>
  after its one request; the archive is still in the cache directory afterwards (the
  statement that removes it comes after the extraction and is skipped by the throw), and
  so is everything that the utility wrote.
\<close>

theorem extraction_failure_keeps_archive:
  fixes W :: world and info :: PlatformInfo
  defines "cacheDir \<equiv> getCacheDir W"
  defines "assetName \<equiv> assetName_of (getPackageVersion W) info"
  defines "url \<equiv> downloadUrl_of (getPackageVersion W) assetName"
  defines "archivePath \<equiv> path_join W [cacheDir, assetName]"
  assumes "PLATFORM_MAP (platform W @ ''-'' @ arch W) = Some info"
    and "\<not> existsSync W (path_join W [cacheDir, getBinaryName W])"
    and "existsSync W cacheDir \<or> \<not> io_fails W Mkdir"
    and "fetch W url = HttpResponse status" and "200 \<le> status" and "status \<le> 299"
    and "\<not> io_fails W WriteArchive"
    and "spawnExtract W (extract_command W (ext info) archivePath cacheDir)
           = ExtractExited exitCode written"
    and "exitCode \<noteq> 0"
  shows "dl_path (downloadCommentChecker W) = None
       \<and> dl_requests (downloadCommentChecker W) = [url]
       \<and> archivePath \<in> dl_files (downloadCommentChecker W)
       \<and> written \<subseteq> dl_files (downloadCommentChecker W)"
  using assms
  by (auto simp: downloadCommentChecker_def download_try_def extract_archive_command Let_def)

lemma sample_asset:
  "assetName_of (getPackageVersion sample_world) \<lparr>os = ''linux'', pi_arch = ''amd64'', ext = TarGz\<rparr>
     = ''comment-checker_v0.7.0_linux_amd64.tar.gz''"
  by (simp add: assetName_of_def getPackageVersion_def ext_string_def sample_world_def)

lemma sample_archive_path:
  "path_join sample_world
     [getCacheDir sample_world, ''comment-checker_v0.7.0_linux_amd64.tar.gz''] = sample_archive"
proof -
  have "getCacheDir sample_world = ''/home/u/.cache/opencode-comments-plugin/bin''"
    by (rule sample_cacheDir) (simp_all add: sample_world_def)
  moreover have "path_join sample_world = sample_join" by (simp add: sample_world_def)
  ultimately show ?thesis by (simp add: sample_archive_def)
qed

lemma sample_not_cached:
  "\<not> existsSync sample_world
       (path_join sample_world [getCacheDir sample_world, getBinaryName sample_world])"
  by (simp add: existsSync_def sample_world_def)

theorem extraction_failure_keeps_archive_witness:
  "PLATFORM_MAP (platform sample_world @ ''-'' @ arch sample_world)
     = Some \<lparr>os = ''linux'', pi_arch = ''amd64'', ext = TarGz\<rparr>
   \<and> spawnExtract sample_world
        [''tar'', ''-xzf'', sample_archive, ''-C'', getCacheDir sample_world]
       = ExtractExited 1 {''/home/u/.cache/opencode-comments-plugin/bin/LICENSE''}
   \<and> dl_path (downloadCommentChecker sample_world) = None
   \<and> sample_archive \<in> dl_files (downloadCommentChecker sample_world)
   \<and> ''/home/u/.cache/opencode-comments-plugin/bin/LICENSE''
       \<in> dl_files (downloadCommentChecker sample_world)"
proof -
  let ?info = "\<lparr>os = ''linux'', pi_arch = ''amd64'', ext = TarGz\<rparr>"
  have k: "PLATFORM_MAP (platform sample_world @ ''-'' @ arch sample_world) = Some ?info"
    by (simp add: sample_world_def PLATFORM_MAP_def)
  have cmd: "extract_command sample_world (ext ?info) sample_archive (getCacheDir sample_world)
               = [''tar'', ''-xzf'', sample_archive, ''-C'', getCacheDir sample_world]"
    by (simp add: extract_command_def)
  have sp: "spawnExtract sample_world
              [''tar'', ''-xzf'', sample_archive, ''-C'', getCacheDir sample_world]
            = ExtractExited 1 {''/home/u/.cache/opencode-comments-plugin/bin/LICENSE''}"
    by (simp add: sample_world_def)
  have io: "\<not> io_fails sample_world Mkdir" "\<not> io_fails sample_world WriteArchive"
    and f: "fetch sample_world u = HttpResponse 200" for u
    by (simp_all add: sample_world_def)
  from extraction_failure_keeps_archive
         [of sample_world ?info 200 1 "{''/home/u/.cache/opencode-comments-plugin/bin/LICENSE''}",
          unfolded sample_asset sample_archive_path cmd, OF k sample_not_cached _ f _ _ io(2) sp]
       io(1) k sp
  show ?thesis by simp
qed

text \<open>
  C9 as it is stated fails where it has the archive removed: on the sample machine the
  extraction exits with 1, the download returns \<open>null\<close>, and the archive is on disk
  afterwards.
\<close>

theorem extraction_failure_cleanup_counterexample:
  "\<not> (spawnExtract sample_world
          [''tar'', ''-xzf'', sample_archive, ''-C'', ''/home/u/.cache/opencode-comments-plugin/bin'']
         = ExtractExited 1 {''/home/u/.cache/opencode-comments-plugin/bin/LICENSE''}
       \<longrightarrow> dl_path (downloadCommentChecker sample_world) = None
           \<and> sample_archive \<notin> dl_files (downloadCommentChecker sample_world))"
  by (simp add: sample_world_def sample_archive_def downloadCommentChecker_def download_try_def
        PLATFORM_MAP_def existsSync_def getCacheDir_def getBinaryName_def
        getPackageVersion_def assetName_of_def ext_string_def downloadUrl_of_def
        extract_archive_def extractTarGz_def Let_def)

section \<open>Running the checker\<close>

lemma stringify_serialisable:
  "JSON_stringify W input \<noteq> Throws \<longleftrightarrow>
     serialisable (file_path (tool_input input))
     \<and> serialisable (ti_content (tool_input input))
     \<and> serialisable (old_string (tool_input input))
     \<and> serialisable (new_string (tool_input input))
     \<and> serialisable (ti_edits (tool_input input))
     \<and> serialisable (tool_response input)"
  by (simp add: JSON_stringify_def)

text \<open>
  C3, as the code has it. The result of \<open>runCommentChecker\<close> is
  \<open>{hasComments: false, message: ""}\<close> when no binary path is found and when the
  path is not on disk. When the binary is on disk and \<open>JSON.stringify\<close> accepts the
  input, the function returns and does not throw: \<open>{hasComments: false, message: ""}\<close>
  when spawning or talking to the process throws and when the process exits with 0 or
  with any code other than 2, \<open>{hasComments: true, message: stderr}\<close> when it exits
  with 2. When the binary is on disk and \<open>JSON.stringify\<close> throws for the input, the
  exception leaves the function: the call stands before the \<open>try\<close>.
\<close>

theorem runCommentChecker_fail_soft:
  "(\<not> truthy_path (chosen_binaryPath W resolved options) \<longrightarrow>
        runCommentChecker W resolved input options
          = Returns \<lparr>hasComments = False, message = []\<rparr>)
   \<and> (chosen_binaryPath W resolved options = Some p \<and> \<not> existsSync W p \<longrightarrow>
        runCommentChecker W resolved input options
          = Returns \<lparr>hasComments = False, message = []\<rparr>)
   \<and> (chosen_binaryPath W resolved options = Some p \<and> p \<noteq> [] \<and> existsSync W p
        \<and> JSON_stringify W input = Returns jsonInput \<longrightarrow>
        runCommentChecker W resolved input options =
          (case spawnChecker W (checker_args W p options) jsonInput of
             SpawnError \<Rightarrow> Returns \<lparr>hasComments = False, message = []\<rparr>
           | Exited exitCode stdout stderr \<Rightarrow>
               if exitCode = 0 then Returns \<lparr>hasComments = False, message = []\<rparr>
               else if exitCode = 2 then Returns \<lparr>hasComments = True, message = stderr\<rparr>
               else Returns \<lparr>hasComments = False, message = []\<rparr>))
   \<and> (chosen_binaryPath W resolved options = Some p \<and> p \<noteq> [] \<and> existsSync W p
        \<and> JSON_stringify W input = Throws \<longrightarrow>
        runCommentChecker W resolved input options = Throws)
   \<and> (JSON_stringify W input \<noteq> Throws \<longrightarrow>
        runCommentChecker W resolved input options \<noteq> Throws)"
  by (auto simp: runCommentChecker_def runCommentChecker_try_def no_comments_def
        truthy_path_def Let_def
      split: option.splits proc_outcome.splits outcome.splits)

lemma sample_nothing_found:
  "chosen_binaryPath sample_world None \<lparr>opt_cliPath = None, opt_prompt = None\<rparr> = None"
proof -
  have "\<not> existsSync sample_world q" for q
    by (simp add: existsSync_def sample_world_def)
  then show ?thesis
    by (simp add: chosen_binaryPath_def getCommentCheckerPathSync_def
          findCommentCheckerPathSync_def getCachedBinaryPath_def truthy_path_def Let_def
          sample_world_def)
qed

lemma sample_payload_text:
  "JSON_stringify W sample_payload = Returns (json_text W sample_payload)"
  by (simp add: JSON_stringify_def sample_payload_def hookInput_of_def new_pending_def
        sample_args_def args_filePath_def get_prop_def coalesce_def)

lemma sample_bad_payload_throws: "JSON_stringify W sample_bad_payload = Throws"
  by (simp add: JSON_stringify_def sample_bad_payload_def)

theorem runCommentChecker_fail_soft_witness:
  "\<not> truthy_path (chosen_binaryPath sample_world None \<lparr>opt_cliPath = None, opt_prompt = None\<rparr>)
   \<and> runCommentChecker sample_world None sample_payload \<lparr>opt_cliPath = None, opt_prompt = None\<rparr>
       = Returns \<lparr>hasComments = False, message = []\<rparr>
   \<and> chosen_binaryPath sample_world None \<lparr>opt_cliPath = Some ''/nowhere'', opt_prompt = None\<rparr>
       = Some ''/nowhere''
   \<and> \<not> existsSync sample_world ''/nowhere''
   \<and> runCommentChecker sample_world None sample_payload
         \<lparr>opt_cliPath = Some ''/nowhere'', opt_prompt = None\<rparr>
       = Returns \<lparr>hasComments = False, message = []\<rparr>
   \<and> chosen_binaryPath (sample_world\<lparr>files := {sample_cached}\<rparr>) (Some sample_cached)
         \<lparr>opt_cliPath = None, opt_prompt = None\<rparr> = Some sample_cached
   \<and> sample_cached \<noteq> [] \<and> existsSync (sample_world\<lparr>files := {sample_cached}\<rparr>) sample_cached
   \<and> JSON_stringify (sample_world\<lparr>files := {sample_cached}\<rparr>) sample_payload = Returns ''{}''
   \<and> runCommentChecker (sample_world\<lparr>files := {sample_cached}\<rparr>) (Some sample_cached)
         sample_payload \<lparr>opt_cliPath = None, opt_prompt = None\<rparr>
       = Returns \<lparr>hasComments = True, message = ''New comment detected''\<rparr>
   \<and> JSON_stringify (sample_world\<lparr>files := {sample_cached}\<rparr>) sample_bad_payload = Throws
   \<and> runCommentChecker (sample_world\<lparr>files := {sample_cached}\<rparr>) (Some sample_cached)
         sample_bad_payload \<lparr>opt_cliPath = None, opt_prompt = None\<rparr>
       = Throws"
proof -
  let ?o = "\<lparr>opt_cliPath = None, opt_prompt = None\<rparr>"
  let ?o' = "\<lparr>opt_cliPath = Some ''/nowhere'', opt_prompt = None\<rparr>"
  let ?W = "sample_world\<lparr>files := {sample_cached}\<rparr>"
  have a: "\<not> truthy_path (chosen_binaryPath sample_world None ?o)"
    by (simp add: sample_nothing_found truthy_path_def)
  have b: "chosen_binaryPath sample_world None ?o' = Some ''/nowhere''"
    "\<not> existsSync sample_world ''/nowhere''"
    by (simp_all add: chosen_binaryPath_def existsSync_def sample_world_def)
  have c: "chosen_binaryPath ?W (Some sample_cached) ?o = Some sample_cached"
    "sample_cached \<noteq> []" "existsSync ?W sample_cached"
    by (simp_all add: chosen_binaryPath_def existsSync_def sample_cached_def)
  have j: "JSON_stringify ?W sample_payload = Returns ''{}''"
    by (simp add: sample_payload_text sample_world_def)
  have d: "spawnChecker ?W args stdin = Exited 2 [] ''New comment detected''" for args stdin
    by (simp add: sample_world_def)
  from runCommentChecker_fail_soft
         [where W = sample_world and resolved = None and options = ?o
            and input = sample_payload]
    runCommentChecker_fail_soft
      [where W = sample_world and resolved = None and options = ?o' and p = "''/nowhere''"
         and input = sample_payload]
    runCommentChecker_fail_soft
      [where W = ?W and resolved = "Some sample_cached" and options = ?o
         and p = sample_cached and input = sample_payload and jsonInput = "''{}''"]
    runCommentChecker_fail_soft
      [where W = ?W and resolved = "Some sample_cached" and options = ?o
         and p = sample_cached and input = sample_bad_payload]
    a b c d j sample_bad_payload_throws [of ?W]
  show ?thesis by simp
qed

text \<open>
  C3 as it is stated fails where it has the function never raise: with the binary on
  disk and a \<open>bigint\<close> as the \<open>tool_response\<close> of the input, \<open>JSON.stringify\<close>
  throws before the \<open>try\<close> and \<open>runCommentChecker\<close> throws with it.
\<close>

theorem runCommentChecker_stringify_counterexample:
  "\<not> (runCommentChecker (sample_world\<lparr>files := {sample_cached}\<rparr>) (Some sample_cached)
          sample_bad_payload \<lparr>opt_cliPath = None, opt_prompt = None\<rparr> \<noteq> Throws)"
proof -
  have "existsSync (sample_world\<lparr>files := {sample_cached}\<rparr>) sample_cached"
    and "sample_cached \<noteq> []"
    by (simp_all add: existsSync_def sample_cached_def)
  then show ?thesis
    by (simp add: runCommentChecker_def chosen_binaryPath_def truthy_path_def
          sample_bad_payload_throws)
qed

section \<open>The pending-call table\<close>

lemma lookup_cleanup_loop:
  "DAList.lookup (cleanup_loop now es tbl) k =
     (if \<exists>c. (k, c) \<in> set es \<and> now - timestamp c > PENDING_CALL_TTL then None
      else DAList.lookup tbl k)"
  by (induction es arbitrary: tbl) auto

lemma lookup_impl_of:
  "(k, c) \<in> set (DAList.impl_of tbl) \<longleftrightarrow> DAList.lookup tbl k = Some c"
  by (simp add: DAList.lookup.rep_eq)

lemma lookup_cleanup:
  "DAList.lookup (pendingCalls (cleanupOldPendingCalls now st)) k =
     (case DAList.lookup (pendingCalls st) k of
        None \<Rightarrow> None
      | Some c \<Rightarrow> if now - timestamp c > PENDING_CALL_TTL then None else Some c)"
  by (auto simp: cleanupOldPendingCalls_def lookup_cleanup_loop lookup_impl_of
      split: option.splits)

lemma after_absent:
  "DAList.lookup (pendingCalls st) (in_callID input) = None \<Longrightarrow>
   tool_execute_after K W resolved input out st =
     \<lparr>ar_state = st, ar_output = out, ar_taken = None, ar_invoked = None,
      ar_returned = True\<rparr>"
  by (simp add: tool_execute_after_def)

lemma after_taken:
  "ar_taken (tool_execute_after K W resolved input out st)
     = DAList.lookup (pendingCalls st) (in_callID input)"
  by (simp add: tool_execute_after_def Let_def
      split: option.splits awaited.splits outcome.splits)

lemma after_pending:
  "pendingCalls (ar_state (tool_execute_after K W resolved input out st)) =
     (case DAList.lookup (pendingCalls st) (in_callID input) of
        None \<Rightarrow> pendingCalls st
      | Some c \<Rightarrow> DAList.delete (in_callID input) (pendingCalls st))"
  by (simp add: tool_execute_after_def Let_def
      split: option.splits awaited.splits outcome.splits)

lemma lookup_after:
  "DAList.lookup (pendingCalls (ar_state (tool_execute_after K W resolved input out st))) k =
     (if k = in_callID input then None else DAList.lookup (pendingCalls st) k)"
  by (auto simp: after_pending split: option.splits)

lemma lookup_before:
  "DAList.lookup (pendingCalls (tool_execute_before K now input args st)) k =
     (if k = in_callID input \<and> toLowerCase (in_tool input) \<in> TOOL_NAMES K
         \<and> truthy (args_filePath args)
      then Some (new_pending (toLowerCase (in_tool input)) input args now)
      else DAList.lookup (pendingCalls st) k)"
  by (auto simp: tool_execute_before_def Let_def)

lemma pending_config: "pendingCalls (config_hook W config st) = pendingCalls st"
  by (simp add: config_hook_def split: outcome.splits)

lemma step_leaves_alone:
  "leaves_alone c t ev \<Longrightarrow> DAList.lookup (pendingCalls st) c = Some v \<Longrightarrow> timestamp v = t \<Longrightarrow>
   DAList.lookup (pendingCalls (plugin_step K ev st)) c = Some v"
  by (cases ev) (auto simp: pending_config lookup_before lookup_after lookup_cleanup)

lemma run_leaves_alone:
  "\<forall>ev\<in>set evs. leaves_alone c t ev \<Longrightarrow> DAList.lookup (pendingCalls st) c = Some v \<Longrightarrow>
   timestamp v = t \<Longrightarrow>
   DAList.lookup (pendingCalls (plugin_run K evs st)) c = Some v"
  by (induction evs arbitrary: st) (auto simp: step_leaves_alone)

lemma step_no_record:
  "\<not> records c ev \<Longrightarrow> DAList.lookup (pendingCalls st) c = None \<Longrightarrow>
   DAList.lookup (pendingCalls (plugin_step K ev st)) c = None"
  by (cases ev) (auto simp: pending_config lookup_before lookup_after lookup_cleanup)

lemma run_no_record:
  "\<forall>ev\<in>set evs. \<not> records c ev \<Longrightarrow> DAList.lookup (pendingCalls st) c = None \<Longrightarrow>
   DAList.lookup (pendingCalls (plugin_run K evs st)) c = None"
  by (induction evs arbitrary: st) (auto simp: step_no_record)

lemma sample_lower: "toLowerCase ''Edit'' = ''edit''" "toLowerCase ''Write'' = ''write''"
  by (simp_all add: toLowerCase_def toLowerChar_def)

lemma sample_recorded:
  "toLowerCase (in_tool sample_input) \<in> TOOL_NAMES sample_constants"
  "truthy (args_filePath sample_args)"
  by (simp_all add: sample_input_def sample_constants_def sample_lower sample_args_def
        args_filePath_def get_prop_def coalesce_def)

text \<open>
  C1. Let the before-hook record a pending call \<open>v\<close> for the call identifier \<open>c\<close>: the
  tool is one of \<open>TOOL_NAMES\<close> and the arguments carry a file path. Then, whatever
  happens to other call identifiers, and with sweeps only at times when \<open>v\<close> is not
  older than the time-to-live, the next after-hook of \<open>c\<close> takes \<open>v\<close> and removes the
  entry; an after-hook of \<open>c\<close> that follows, with no before-hook of \<open>c\<close> in between,
  finds nothing, runs no check and leaves the output alone.
\<close>

theorem take_after_record_once:
  fixes K :: constants and input input1 input2 :: hook_in
    and args :: "string \<rightharpoonup> jsval" and now :: int
    and evs evs' :: "plugin_event list" and st :: plugin_state
    and W1 W2 :: world and resolved1 resolved2 :: "string option"
    and out1 out2 :: tool_output
  defines "c \<equiv> in_callID input"
  defines "v \<equiv> new_pending (toLowerCase (in_tool input)) input args now"
  defines "st1 \<equiv> plugin_run K evs (tool_execute_before K now input args st)"
  defines "r1 \<equiv> tool_execute_after K W1 resolved1 input1 out1 st1"
  defines "r2 \<equiv> tool_execute_after K W2 resolved2 input2 out2 (plugin_run K evs' (ar_state r1))"
  assumes known: "toLowerCase (in_tool input) \<in> TOOL_NAMES K"
    and path: "truthy (args_filePath args)"
    and quiet: "\<forall>ev\<in>set evs. leaves_alone c now ev"
    and fresh: "\<forall>ev\<in>set evs'. \<not> records c ev"
    and id1: "in_callID input1 = c"
    and id2: "in_callID input2 = c"
  shows "ar_taken r1 = Some v
       \<and> DAList.lookup (pendingCalls (ar_state r1)) c = None
       \<and> ar_taken r2 = None \<and> ar_invoked r2 = None \<and> ar_output r2 = out2
       \<and> ar_returned r2"
proof -
  have "DAList.lookup (pendingCalls (tool_execute_before K now input args st)) c = Some v"
    using known path by (simp add: lookup_before c_def v_def)
  moreover have "timestamp v = now" by (simp add: v_def new_pending_def)
  ultimately have "DAList.lookup (pendingCalls st1) c = Some v"
    using quiet by (simp add: run_leaves_alone st1_def)
  then have t1: "ar_taken r1 = Some v"
    using id1 by (simp add: after_taken r1_def)
  have gone: "DAList.lookup (pendingCalls (ar_state r1)) c = None"
    using id1 by (simp add: lookup_after r1_def)
  then have "DAList.lookup (pendingCalls (plugin_run K evs' (ar_state r1))) (in_callID input2)
               = None"
    using fresh id2 by (simp add: run_no_record)
  then have "r2 = \<lparr>ar_state = plugin_run K evs' (ar_state r1), ar_output = out2,
                   ar_taken = None, ar_invoked = None, ar_returned = True\<rparr>"
    unfolding r2_def by (rule after_absent)
  with t1 gone show ?thesis by simp
qed

theorem take_after_record_once_witness:
  "toLowerCase (in_tool sample_input) \<in> TOOL_NAMES sample_constants
   \<and> truthy (args_filePath sample_args)
   \<and> leaves_alone ''c1'' 0 (EvSweep 60000)
   \<and> leaves_alone ''c1'' 0 (EvBefore 10 sample_other_input sample_args)
   \<and> \<not> records ''c1'' (EvSweep 100000)
   \<and> ar_taken
        (tool_execute_after sample_constants sample_world None sample_input sample_output
          (plugin_run sample_constants [EvSweep 60000, EvBefore 10 sample_other_input sample_args]
            (tool_execute_before sample_constants 0 sample_input sample_args sample_state)))
       = Some (new_pending ''edit'' sample_input sample_args 0)
   \<and> ar_taken
        (tool_execute_after sample_constants sample_world None sample_input sample_output
          (plugin_run sample_constants [EvSweep 100000]
            (ar_state
              (tool_execute_after sample_constants sample_world None sample_input sample_output
                (plugin_run sample_constants
                  [EvSweep 60000, EvBefore 10 sample_other_input sample_args]
                  (tool_execute_before sample_constants 0 sample_input sample_args
                    sample_state))))))
       = None"
proof -
  have q: "\<forall>ev\<in>set [EvSweep 60000, EvBefore 10 sample_other_input sample_args].
             leaves_alone (in_callID sample_input) 0 ev"
    by (simp add: PENDING_CALL_TTL_def sample_other_input_def sample_input_def)
  have n: "\<forall>ev\<in>set [EvSweep 100000]. \<not> records (in_callID sample_input) ev"
    by simp
  have l: "toLowerCase (in_tool sample_input) = ''edit''" "in_callID sample_input = ''c1''"
    by (simp_all add: sample_input_def sample_lower)
  from take_after_record_once
         [where input = sample_input and K = sample_constants and args = sample_args
            and evs = "[EvSweep 60000, EvBefore 10 sample_other_input sample_args]"
            and now = 0 and evs' = "[EvSweep 100000]"
            and ?input1.0 = sample_input and ?input2.0 = sample_input
            and st = sample_state and ?W1.0 = sample_world and ?W2.0 = sample_world
            and ?resolved1.0 = None and ?resolved2.0 = None
            and ?out1.0 = sample_output and ?out2.0 = sample_output,
          OF sample_recorded q n refl refl]
       sample_recorded q n l
  show ?thesis by simp
qed

text \<open>
  C5. A sweep at time \<open>now\<close> removes an entry whose age \<open>now - timestamp\<close> is above
  60000 milliseconds, whether or not an after-hook ever asked for it: the after-hook of
  its call identifier then finds nothing, runs no check and leaves the output alone. An
  entry whose age is at most 60000 milliseconds stays in the table as it was.
\<close>

theorem sweep_removes_stale:
  assumes "DAList.lookup (pendingCalls st) (in_callID input) = Some call"
  shows "(now - timestamp call > 60000 \<longrightarrow>
            DAList.lookup (pendingCalls (cleanupOldPendingCalls now st)) (in_callID input) = None
          \<and> tool_execute_after K W resolved input out (cleanupOldPendingCalls now st) =
              \<lparr>ar_state = cleanupOldPendingCalls now st, ar_output = out, ar_taken = None,
               ar_invoked = None, ar_returned = True\<rparr>)
       \<and> (now - timestamp call \<le> 60000 \<longrightarrow>
            DAList.lookup (pendingCalls (cleanupOldPendingCalls now st)) (in_callID input)
              = Some call)"
  using assms by (simp add: lookup_cleanup after_absent PENDING_CALL_TTL_def)

theorem sweep_removes_stale_witness:
  "DAList.lookup
     (pendingCalls (tool_execute_before sample_constants 0 sample_input sample_args sample_state))
     (in_callID sample_input)
     = Some (new_pending ''edit'' sample_input sample_args 0)
   \<and> 60001 - timestamp (new_pending ''edit'' sample_input sample_args 0) > 60000
   \<and> DAList.lookup
       (pendingCalls
         (cleanupOldPendingCalls 60001
           (tool_execute_before sample_constants 0 sample_input sample_args sample_state)))
       (in_callID sample_input) = None
   \<and> 60000 - timestamp (new_pending ''edit'' sample_input sample_args 0) \<le> 60000
   \<and> DAList.lookup
       (pendingCalls
         (cleanupOldPendingCalls 60000
           (tool_execute_before sample_constants 0 sample_input sample_args sample_state)))
       (in_callID sample_input) = Some (new_pending ''edit'' sample_input sample_args 0)"
proof -
  let ?st = "tool_execute_before sample_constants 0 sample_input sample_args sample_state"
  let ?v = "new_pending ''edit'' sample_input sample_args 0"
  have l: "toLowerCase (in_tool sample_input) = ''edit''"
    by (simp add: sample_input_def sample_lower)
  have e: "DAList.lookup (pendingCalls ?st) (in_callID sample_input) = Some ?v"
    using sample_recorded by (simp add: lookup_before l)
  have t: "timestamp ?v = 0" by (simp add: new_pending_def)
  from sweep_removes_stale [OF e, of 60001 sample_constants sample_world None sample_output]
    sweep_removes_stale [OF e, of 60000 sample_constants sample_world None sample_output] e t
  show ?thesis by simp
qed

section \<open>The after-hook\<close>

lemma startsWith_iff: "startsWith s p \<longleftrightarrow> (\<exists>b. s = p @ b)"
  unfolding startsWith_def
  by (metis append_eq_conv_conj append_take_drop_id)

lemma str_includes_iff: "str_includes s p \<longleftrightarrow> (\<exists>a b. s = a @ p @ b)"
proof (induction s)
  case Nil
  then show ?case by auto
next
  case (Cons c cs)
  show ?case
  proof
    assume "str_includes (c # cs) p"
    then consider "startsWith (c # cs) p" | "str_includes cs p" by auto
    then show "\<exists>a b. c # cs = a @ p @ b"
    proof cases
      case 1
      then obtain b where "c # cs = p @ b" by (auto simp: startsWith_iff)
      then have "c # cs = [] @ p @ b" by simp
      then show ?thesis by blast
    next
      case 2
      then obtain a b where "cs = a @ p @ b" using Cons.IH by auto
      then have "c # cs = (c # a) @ p @ b" by simp
      then show ?thesis by blast
    qed
  next
    assume "\<exists>a b. c # cs = a @ p @ b"
    then obtain a b where ab: "c # cs = a @ p @ b" by auto
    show "str_includes (c # cs) p"
    proof (cases a)
      case Nil
      with ab have "startsWith (c # cs) p" by (auto simp: startsWith_iff)
      then show ?thesis by simp
    next
      case (Cons x a')
      with ab have "cs = a' @ p @ b" by simp
      then have "str_includes cs p" using Cons.IH by blast
      then show ?thesis by simp
    qed
  qed
qed

lemma str_includes_lower:
  "str_includes s p \<Longrightarrow> str_includes (toLowerCase s) (toLowerCase p)"
  unfolding str_includes_iff toLowerCase_def by (metis map_append)

lemma isToolFailure_iff:
  "isToolFailure K out \<longleftrightarrow>
     startsWith (toLowerCase out) ''error''
     \<or> (\<exists>p\<in>set (OUTPUT_FAILURE_PATTERNS K). str_includes (toLowerCase out) p)"
  by (simp add: isToolFailure_def list_ex_iff Let_def)

text \<open>
  C6. Let the after-hook find a pending call for its call identifier. If the output of
  the tool, in lower case, starts with \<open>error\<close>, or contains one of
  \<open>OUTPUT_FAILURE_PATTERNS\<close> (the output in lower case contains the pattern; for a
  pattern written in lower case this covers every output that contains the pattern as
  it stands), then the hook returns, whatever the promise of the path does,
  \<open>runCommentChecker\<close> is not called and the output object is unchanged.
\<close>

theorem tool_failure_skips_checker:
  assumes entry: "DAList.lookup (pendingCalls st) (in_callID input) = Some pendingCall"
    and failure: "startsWith (toLowerCase (out_text out)) ''error''
         \<or> (\<exists>p\<in>set (OUTPUT_FAILURE_PATTERNS K).
               str_includes (toLowerCase (out_text out)) p
               \<or> (toLowerCase p = p \<and> str_includes (out_text out) p))"
  shows "ar_invoked (tool_execute_after K W resolved input out st) = None
       \<and> ar_output (tool_execute_after K W resolved input out st) = out
       \<and> ar_returned (tool_execute_after K W resolved input out st)"
proof -
  have "isToolFailure K (out_text out)"
    using failure str_includes_lower unfolding isToolFailure_iff by metis
  with entry show ?thesis by (simp add: tool_execute_after_def Let_def)
qed

lemma sample_entry:
  "DAList.lookup
     (pendingCalls (tool_execute_before sample_constants 0 sample_input sample_args sample_state))
     (in_callID sample_input)
   = Some (new_pending ''edit'' sample_input sample_args 0)"
  using sample_recorded by (simp add: lookup_before sample_input_def sample_lower)

theorem tool_failure_skips_checker_witness:
  "DAList.lookup
     (pendingCalls (tool_execute_before sample_constants 0 sample_input sample_args sample_state))
     (in_callID sample_input)
     = Some (new_pending ''edit'' sample_input sample_args 0)
   \<and> startsWith (toLowerCase ''Error: permission denied'') ''error''
   \<and> ar_invoked
        (tool_execute_after sample_constants (sample_world\<lparr>files := {sample_cached}\<rparr>)
          (Some sample_cached) sample_input
          (sample_output\<lparr>out_text := ''Error: permission denied''\<rparr>)
          (tool_execute_before sample_constants 0 sample_input sample_args sample_state))
       = None
   \<and> ar_output
        (tool_execute_after sample_constants (sample_world\<lparr>files := {sample_cached}\<rparr>)
          (Some sample_cached) sample_input
          (sample_output\<lparr>out_text := ''Error: permission denied''\<rparr>)
          (tool_execute_before sample_constants 0 sample_input sample_args sample_state))
       = sample_output\<lparr>out_text := ''Error: permission denied''\<rparr>"
proof -
  have s: "startsWith (toLowerCase ''Error: permission denied'') ''error''"
    by (simp add: startsWith_def toLowerCase_def toLowerChar_def)
  then have f: "startsWith
          (toLowerCase (out_text (sample_output\<lparr>out_text := ''Error: permission denied''\<rparr>)))
          ''error''
        \<or> (\<exists>p\<in>set (OUTPUT_FAILURE_PATTERNS sample_constants).
              str_includes
                (toLowerCase (out_text (sample_output\<lparr>out_text := ''Error: permission denied''\<rparr>))) p
              \<or> (toLowerCase p = p
                  \<and> str_includes
                       (out_text (sample_output\<lparr>out_text := ''Error: permission denied''\<rparr>)) p))"
    by simp
  from tool_failure_skips_checker
         [OF sample_entry f, of "sample_world\<lparr>files := {sample_cached}\<rparr>" "Some sample_cached"]
       sample_entry s
  show ?thesis by simp
qed








lemma before_without_path:
  assumes "args ''filePath'' = None" and "args ''file_path'' = None" and "args ''path'' = None"
  shows "tool_execute_before K now input args st = st"
  using assms
  by (simp add: tool_execute_before_def args_filePath_def get_prop_def coalesce_def Let_def)

text \<open>
  C10. Call identifiers are unique per invocation: the table has no entry for the
  identifier when its before-hook runs, and no other before-hook of the identifier
  follows. Then a before-hook for a tool in \<open>TOOL_NAMES\<close> whose arguments have none
  of the keys \<open>filePath\<close>, \<open>file_path\<close> and \<open>path\<close> records nothing, it leaves the
  plugin state as it was, and the after-hook of that identifier, directly or after any
  events of other calls, returns with no entry taken, \<open>runCommentChecker\<close> not called
  and state and output as it found them.
\<close>

theorem no_path_no_record:
  fixes K :: constants and input input' :: hook_in and args :: "string \<rightharpoonup> jsval"
    and now :: int and st :: plugin_state and evs :: "plugin_event list"
    and W :: world and resolved :: "string option" and out :: tool_output
  defines "st1 \<equiv> plugin_run K evs (tool_execute_before K now input args st)"
  assumes known: "toLowerCase (in_tool input) \<in> TOOL_NAMES K"
    and nopath: "args ''filePath'' = None" "args ''file_path'' = None" "args ''path'' = None"
    and unique: "DAList.lookup (pendingCalls st) (in_callID input) = None"
      "\<forall>ev\<in>set evs. \<not> records (in_callID input) ev"
    and same: "in_callID input' = in_callID input"
  shows "tool_execute_before K now input args st = st
       \<and> tool_execute_after K W resolved input' out st1 =
            \<lparr>ar_state = st1, ar_output = out, ar_taken = None, ar_invoked = None,
             ar_returned = True\<rparr>"
proof -
  have b: "tool_execute_before K now input args st = st"
    using nopath by (rule before_without_path)
  have "DAList.lookup (pendingCalls st1) (in_callID input') = None"
    unfolding st1_def b using unique same by (simp add: run_no_record)
  then have "tool_execute_after K W resolved input' out st1 =
               \<lparr>ar_state = st1, ar_output = out, ar_taken = None, ar_invoked = None,
                ar_returned = True\<rparr>"
    by (rule after_absent)
  with b show ?thesis by simp
qed

theorem no_path_no_record_witness:
  "toLowerCase (in_tool sample_input) \<in> TOOL_NAMES sample_constants
   \<and> DAList.lookup (pendingCalls sample_state) (in_callID sample_input) = None
   \<and> \<not> records (in_callID sample_input) (EvBefore 10 sample_other_input sample_args)
   \<and> tool_execute_before sample_constants 0 sample_input Map.empty sample_state = sample_state
   \<and> ar_invoked
        (tool_execute_after sample_constants (sample_world\<lparr>files := {sample_cached}\<rparr>)
           (Some sample_cached) sample_input sample_output
           (plugin_run sample_constants [EvBefore 10 sample_other_input sample_args]
              (tool_execute_before sample_constants 0 sample_input Map.empty sample_state)))
       = None
   \<and> ar_output
        (tool_execute_after sample_constants (sample_world\<lparr>files := {sample_cached}\<rparr>)
           (Some sample_cached) sample_input sample_output
           (plugin_run sample_constants [EvBefore 10 sample_other_input sample_args]
              (tool_execute_before sample_constants 0 sample_input Map.empty sample_state)))
       = sample_output
   \<and> tool_execute_after sample_constants (sample_world\<lparr>files := {sample_cached}\<rparr>)
        (Some sample_cached) sample_input sample_output
        (plugin_run sample_constants []
           (tool_execute_before sample_constants 0 sample_input Map.empty sample_state))
       = \<lparr>ar_state = sample_state, ar_output = sample_output, ar_taken = None,
          ar_invoked = None, ar_returned = True\<rparr>"
proof -
  let ?W = "sample_world\<lparr>files := {sample_cached}\<rparr>"
  have e: "DAList.lookup (pendingCalls sample_state) (in_callID sample_input) = None"
    by (simp add: sample_state_def initial_plugin_state_def)
  have o: "\<not> records (in_callID sample_input) (EvBefore 10 sample_other_input sample_args)"
    by (simp add: sample_input_def sample_other_input_def)
  then have q: "\<forall>ev\<in>set [EvBefore 10 sample_other_input sample_args].
                 \<not> records (in_callID sample_input) ev"
    by simp
  have q0: "\<forall>ev\<in>set []. \<not> records (in_callID sample_input) ev"
    by simp
  have n: "Map.empty ''filePath'' = None" "Map.empty ''file_path'' = None"
    "Map.empty ''path'' = None"
    by simp_all
  have b: "tool_execute_before sample_constants 0 sample_input Map.empty sample_state
             = sample_state"
    by (rule before_without_path) simp_all
  from no_path_no_record
         [where K = sample_constants and input = sample_input and args = Map.empty
            and now = 0 and st = sample_state
            and evs = "[EvBefore 10 sample_other_input sample_args]"
            and input' = sample_input and W = ?W and resolved = "Some sample_cached"
            and out = sample_output,
          OF sample_recorded(1) n e q refl]
       no_path_no_record
         [where K = sample_constants and input = sample_input and args = Map.empty
            and now = 0 and st = sample_state and evs = "[]"
            and input' = sample_input and W = ?W and resolved = "Some sample_cached"
            and out = sample_output,
          OF sample_recorded(1) n e q0 refl]
       e o sample_recorded(1)
  show ?thesis unfolding b by simp
qed

section \<open>The single-flight resolution\<close>

lemma first_call_started:
  "ev \<noteq> Settle \<Longrightarrow> started (cli_step W ev (cli_initial W, []))"
  using ensure_requests [of "W\<lparr>files := files W\<rparr>"]
  by (cases ev)
     (auto simp: started_def cli_initial_def getCommentCheckerPath_def startBackgroundInit_def
        start_resolution_def Let_def truthy_path_def split: option.splits)

lemma settle_initial: "cli_step W' Settle (cli_initial W, []) = (cli_initial W, [])"
  by (simp add: settle_def cli_initial_def)

lemma started_heap_cases:
  assumes "started (s, callers)"
  obtains v where "heap s = [Fulfilled v]" "resolvedCliPath s = None \<or> resolvedCliPath s = v"
  | d where "heap s = [AwaitingDownload d]" "resolvedCliPath s = None"
  using assms unfolding started_def
  by (auto split: list.splits promise.splits)

lemma step_started:
  assumes "started c"
  shows "started (cli_step W ev c)
       \<and> lookups (fst (cli_step W ev c)) = lookups (fst c)
       \<and> requests (fst (cli_step W ev c)) = requests (fst c)
       \<and> disk (fst (cli_step W ev c)) = disk (fst c)"
proof -
  obtain s callers where c: "c = (s, callers)" by (cases c)
  from assms c have st: "started (s, callers)" by simp
  then have basics: "lookups s = 1" "length (requests s) \<le> 1" "initPromise s = Some (Cell 0)"
    and cs: "\<forall>pr\<in>set callers. pr = Cell 0
              \<or> (resolvedCliPath s \<noteq> None \<and> pr = Settled (resolvedCliPath s)
                  \<and> heap s = [Fulfilled (resolvedCliPath s)])"
    by (auto simp: started_def)
  from st show ?thesis
  proof (cases rule: started_heap_cases)
    case (1 v)
    show ?thesis
    proof (cases ev)
      case Call
      then show ?thesis using c 1 basics cs
        by (auto simp: started_def getCommentCheckerPath_def split: option.splits)
    next
      case BackgroundInit
      then show ?thesis using c st basics by (simp add: startBackgroundInit_def)
    next
      case Settle
      have "settle s = s" using 1 by (auto simp: settle_def)
      then show ?thesis using Settle c st by simp
    qed
  next
    case (2 d)
    show ?thesis
    proof (cases ev)
      case Call
      then show ?thesis using c 2 basics cs
        by (auto simp: started_def getCommentCheckerPath_def split: option.splits)
    next
      case BackgroundInit
      then show ?thesis using c st basics by (simp add: startBackgroundInit_def)
    next
      case Settle
      then show ?thesis using c 2 basics cs
        by (auto simp: started_def settle_def truthy_path_def split: option.splits)
    qed
  qed
qed

lemma run_started:
  "started c \<Longrightarrow>
   started (cli_run W evs c)
     \<and> lookups (fst (cli_run W evs c)) = lookups (fst c)
     \<and> requests (fst (cli_run W evs c)) = requests (fst c)
     \<and> disk (fst (cli_run W evs c)) = disk (fst c)"
proof (induction evs arbitrary: c)
  case Nil
  then show ?case by simp
next
  case (Cons ev evs)
  from step_started [OF Cons.prems, of W ev] Cons.IH [of "cli_step W ev c"]
  show ?case by simp
qed

lemma settle_started:
  assumes "started c"
  shows "\<exists>v. settled_with v (cli_step W Settle c)"
proof -
  obtain s callers where c: "c = (s, callers)" by (cases c)
  have st': "started (cli_step W Settle c)" using step_started [OF assms] by simp
  from assms c have "started (s, callers)" by simp
  then show ?thesis
  proof (cases rule: started_heap_cases)
    case (1 v)
    then have "heap (settle s) = [Fulfilled v]" by (auto simp: settle_def)
    then show ?thesis using st' c by (auto simp: settled_with_def)
  next
    case (2 d)
    then have "\<exists>v. heap (settle s) = [Fulfilled v]" by (auto simp: settle_def)
    then show ?thesis using st' c by (auto simp: settled_with_def)
  qed
qed

lemma step_settled:
  assumes "settled_with v c"
  shows "settled_with v (cli_step W ev c)"
proof -
  obtain s callers where c: "c = (s, callers)" by (cases c)
  have st': "started (cli_step W ev c)"
    using step_started assms by (simp add: settled_with_def)
  have h: "heap s = [Fulfilled v]" using assms c by (simp add: settled_with_def)
  have "heap (fst (cli_step W ev c)) = [Fulfilled v]"
  proof (cases ev)
    case Call
    then show ?thesis using c h assms
      by (auto simp: settled_with_def started_def getCommentCheckerPath_def
          split: option.splits)
  next
    case BackgroundInit
    then show ?thesis using c h assms
      by (auto simp: settled_with_def started_def startBackgroundInit_def
          split: option.splits)
  next
    case Settle
    then show ?thesis using c h by (auto simp: settle_def)
  qed
  with st' show ?thesis by (simp add: settled_with_def)
qed

lemma run_settled: "settled_with v c \<Longrightarrow> settled_with v (cli_run W evs c)"
  by (induction evs arbitrary: c) (auto simp: step_settled)

lemma settled_observed:
  assumes "settled_with v c"
  shows "\<forall>pr\<in>set (snd c). observed (fst c) pr = Some v"
  using assms
  by (cases c) (auto simp: settled_with_def started_def observed_def)

lemma callers_step:
  "length (snd (cli_step W ev c)) = length (snd c) + (if ev = Call then 1 else 0)"
  by (cases c; cases ev) (auto split: prod.splits)

lemma callers_run:
  "length (snd (cli_run W evs c)) = length (snd c) + length (filter (\<lambda>ev. ev = Call) evs)"
  by (induction evs arbitrary: c) (auto simp: callers_step)

lemma cli_run_snoc: "cli_run W (evs @ [ev]) c = cli_step W ev (cli_run W evs c)"
  by (induction evs arbitrary: c) auto

lemma reachable:
  "cli_run W evs (cli_initial W, []) = (cli_initial W, [])
   \<or> started (cli_run W evs (cli_initial W, []))"
proof (induction evs rule: rev_induct)
  case Nil
  then show ?case by simp
next
  case (snoc ev evs)
  from snoc show ?case
  proof
    assume init: "cli_run W evs (cli_initial W, []) = (cli_initial W, [])"
    show ?thesis
    proof (cases "ev = Settle")
      case True
      then show ?thesis using init settle_initial by (simp add: cli_run_snoc)
    next
      case False
      then show ?thesis using init first_call_started by (simp add: cli_run_snoc)
    qed
  next
    assume "started (cli_run W evs (cli_initial W, []))"
    then show ?thesis using step_started by (simp add: cli_run_snoc)
  qed
qed

text \<open>
  C2. Start from a fresh module and let any number of callers, at least one, call
  \<open>getCommentCheckerPath\<close> or \<open>startBackgroundInit\<close> before the download completes
  (\<open>evs1\<close>). Then the body of the resolution has been entered once and at most one
  request has gone to the network. Let the download complete and let anything follow
  (\<open>evs2\<close>): the body has still been entered once, no further request has been made,
  every call has been given a promise, and all the promises given out, before and after,
  have delivered one and the same value, a path or \<open>null\<close>. Also, however calls and
  completions interleave from the start (\<open>evs\<close>), the body is entered at most once and
  at most one request is made.
\<close>

theorem resolve_single_flight:
  fixes W :: world and evs1 evs2 evs :: "cli_event list"
  defines "c1 \<equiv> cli_run W evs1 (cli_initial W, [])"
  defines "c2 \<equiv> cli_run W (Settle # evs2) c1"
  assumes some: "evs1 \<noteq> []" and early: "Settle \<notin> set evs1"
  shows "lookups (fst c1) = 1 \<and> length (requests (fst c1)) \<le> 1
       \<and> lookups (fst c2) = 1 \<and> requests (fst c2) = requests (fst c1)
       \<and> length (snd c2) = length (filter (\<lambda>ev. ev = Call) (evs1 @ evs2))
       \<and> (\<exists>v. \<forall>pr\<in>set (snd c2). observed (fst c2) pr = Some v)
       \<and> lookups (fst (cli_run W evs (cli_initial W, []))) \<le> 1
       \<and> length (requests (fst (cli_run W evs (cli_initial W, [])))) \<le> 1"
proof -
  obtain ev rest where evs1: "evs1 = ev # rest" using some by (cases evs1) auto
  then have "ev \<noteq> Settle" using early by auto
  then have s0: "started (cli_step W ev (cli_initial W, []))" by (rule first_call_started)
  have c1_run: "c1 = cli_run W rest (cli_step W ev (cli_initial W, []))"
    by (simp add: c1_def evs1)
  have st1: "started c1" using run_started [OF s0] c1_run by simp
  then have a: "lookups (fst c1) = 1" "length (requests (fst c1)) \<le> 1"
    by (cases c1; simp add: started_def)+
  obtain v where v: "settled_with v (cli_step W Settle c1)"
    using settle_started [OF st1] by blast
  have c2_run: "c2 = cli_run W evs2 (cli_step W Settle c1)" by (simp add: c2_def)
  have sv: "settled_with v c2" using run_settled [OF v] c2_run by simp
  have b: "lookups (fst c2) = lookups (fst c1)" "requests (fst c2) = requests (fst c1)"
    using run_started [OF st1, of W "Settle # evs2"] by (simp_all add: c2_def)
  have len: "length (snd c2) = length (filter (\<lambda>ev. ev = Call) (evs1 @ evs2))"
    by (simp add: c2_def c1_def callers_run callers_step del: cli_run.simps cli_step.simps)
  have obs: "\<exists>v. \<forall>pr\<in>set (snd c2). observed (fst c2) pr = Some v"
    using settled_observed [OF sv] by blast
  have gen: "lookups (fst (cli_run W evs (cli_initial W, []))) \<le> 1
       \<and> length (requests (fst (cli_run W evs (cli_initial W, [])))) \<le> 1"
    using reachable [of W evs]
    by (cases "cli_run W evs (cli_initial W, [])") (auto simp: started_def cli_initial_def)
  from a b len obs gen show ?thesis by simp
qed

lemma sample_download:
  "ensureCommentCheckerBinary sample_world =
     \<lparr>dl_path = None,
      dl_files = {''/home/u/.cache/opencode-comments-plugin/bin'', sample_archive,
                  ''/home/u/.cache/opencode-comments-plugin/bin/LICENSE''},
      dl_requests =
        [''https://github.com/code-yeongyu/go-claude-code-comment-checker/releases/download/v0.7.0/comment-checker_v0.7.0_linux_amd64.tar.gz'']\<rparr>"
  by (auto simp: ensureCommentCheckerBinary_def getCachedBinaryPath_def sample_world_def
        sample_archive_def downloadCommentChecker_def download_try_def PLATFORM_MAP_def
        existsSync_def getCacheDir_def getBinaryName_def getPackageVersion_def
        assetName_of_def ext_string_def downloadUrl_of_def REPO_def extract_archive_def
        extractTarGz_def Let_def)

lemma sample_first_call:
  "cli_step sample_world BackgroundInit (cli_initial sample_world, []) =
     (\<lparr>resolvedCliPath = None, initPromise = Some (Cell 0), heap = [AwaitingDownload None],
       disk = {''/home/u/.cache/opencode-comments-plugin/bin'', sample_archive,
               ''/home/u/.cache/opencode-comments-plugin/bin/LICENSE''},
       requests =
         [''https://github.com/code-yeongyu/go-claude-code-comment-checker/releases/download/v0.7.0/comment-checker_v0.7.0_linux_amd64.tar.gz''],
       lookups = 1\<rparr>, [])"
proof -
  have w: "sample_world\<lparr>files := files sample_world\<rparr> = sample_world" by simp
  have "findCommentCheckerPathSync sample_world = None"
    by (simp add: findCommentCheckerPathSync_def getCachedBinaryPath_def existsSync_def
          truthy_path_def sample_world_def Let_def)
  then show ?thesis
    by (simp add: startBackgroundInit_def getCommentCheckerPath_def start_resolution_def
          cli_initial_def w sample_download truthy_path_def Let_def)
qed

theorem resolve_single_flight_witness:
  "[BackgroundInit, Call, Call] \<noteq> [] \<and> Settle \<notin> set [BackgroundInit, Call, Call]
   \<and> lookups (fst (cli_run sample_world [BackgroundInit, Call, Call]
                      (cli_initial sample_world, []))) = 1
   \<and> lookups (fst (cli_run sample_world (Settle # [Call])
                      (cli_run sample_world [BackgroundInit, Call, Call]
                         (cli_initial sample_world, [])))) = 1
   \<and> length (snd (cli_run sample_world (Settle # [Call])
                      (cli_run sample_world [BackgroundInit, Call, Call]
                         (cli_initial sample_world, [])))) = 3
   \<and> (\<exists>v. \<forall>pr\<in>set (snd (cli_run sample_world (Settle # [Call])
                               (cli_run sample_world [BackgroundInit, Call, Call]
                                  (cli_initial sample_world, [])))).
          observed (fst (cli_run sample_world (Settle # [Call])
                           (cli_run sample_world [BackgroundInit, Call, Call]
                              (cli_initial sample_world, [])))) pr = Some v)
   \<and> snd (cli_run sample_world (Settle # [Call])
            (cli_run sample_world [BackgroundInit, Call, Call] (cli_initial sample_world, [])))
       = [Cell 0, Cell 0, Cell 0]
   \<and> heap (fst (cli_run sample_world (Settle # [Call])
            (cli_run sample_world [BackgroundInit, Call, Call] (cli_initial sample_world, []))))
       = [Fulfilled None]"
proof -
  have h: "[BackgroundInit, Call, Call] \<noteq> []" "Settle \<notin> set [BackgroundInit, Call, Call]"
    by simp_all
  have r: "cli_run sample_world (Settle # [Call])
             (cli_run sample_world [BackgroundInit, Call, Call] (cli_initial sample_world, []))
           = cli_run sample_world [Call, Call, Settle, Call]
               (cli_step sample_world BackgroundInit (cli_initial sample_world, []))"
    by simp
  have e: "snd (cli_run sample_world [Call, Call, Settle, Call]
                 (cli_step sample_world BackgroundInit (cli_initial sample_world, [])))
             = [Cell 0, Cell 0, Cell 0]
         \<and> heap (fst (cli_run sample_world [Call, Call, Settle, Call]
                 (cli_step sample_world BackgroundInit (cli_initial sample_world, []))))
             = [Fulfilled None]"
    unfolding sample_first_call
    by (simp add: getCommentCheckerPath_def settle_def truthy_path_def)
  from resolve_single_flight
         [where ?evs1.0 = "[BackgroundInit, Call, Call]" and W = sample_world
            and ?evs2.0 = "[Call]" and evs = "[]", OF h]
    h e [folded r]
  show ?thesis by (simp del: cli_run.simps)
qed

end
